theory Spec2Isabelle
  imports Complex_Main "HOL-Library.Word" "HOL-Library.Multiset"
begin

section \<open>Conventions\<close>

text \<open>
  The viewer is C++. A \<^verbatim>\<open>float\<close> is modelled by a \<^typ>\<open>real\<close>: the operations are the
  ones of the source, in the source's order, without the rounding of binary32. Where a
  property depends on the rounding itself, the rounding is a parameter \<open>rnd\<close> of the
  definition (\<open>normalizeVecWith\<close>, \<open>calculateCenterWith\<close>): the identity for exact
  arithmetic, \<open>fl32\<close> for binary32. A \<^verbatim>\<open>float\<close> that can be the result of a division by
  zero is a \<^typ>\<open>real option\<close>, with \<^term>\<open>None\<close> for a value that is a NaN or an
  infinity, or is computed from one. An
  \<^verbatim>\<open>unsigned int\<close> is a \<^typ>\<open>32 word\<close>. A \<^verbatim>\<open>std::array<float, 16>\<close> is a list of reals read
  by index, a \<^verbatim>\<open>std::vector\<close> is a list, and a file is its text, or \<^term>\<open>None\<close> when it
  cannot be opened. A subscript outside a vector is undefined behaviour: a function that can
  reach one has an \<open>outcome\<close>, which is \<open>Undefined\<close> there.
\<close>

type_synonym vec3 = "real \<times> real \<times> real"
type_synonym mat4 = "real list"
type_synonym u32 = "32 word"
type_synonym fval = "real option"
type_synonym fvec3 = "fval \<times> fval \<times> fval"

datatype 'a outcome = Undefined | Returns 'a

text \<open>
  Rounding to binary32, to nearest, ties to even: 24 significant bits, and the smallest
  exponent of a unit in the last place is \<open>-149\<close>, so that a value below \<open>2^-150\<close> in
  magnitude becomes \<open>0\<close>. A value of magnitude \<open>2^128\<close> or more, which binary32 turns into
  an infinity, is outside this function.
\<close>

definition roundHalfEven :: "real \<Rightarrow> int" where
  "roundHalfEven x =
     (let f = \<lfloor>x\<rfloor>; d = x - of_int f in
      if d < 1 / 2 then f
      else if 1 / 2 < d then f + 1
      else if even f then f else f + 1)"

definition fl32 :: "real \<Rightarrow> real" where
  "fl32 x =
     (if x = 0 then 0
      else
        let e = max (\<lfloor>log 2 \<bar>x\<bar>\<rfloor> - 23) (- 149)
        in of_int (roundHalfEven (x / 2 powi e)) * 2 powi e)"

section \<open>Vectors (src/utils/vectorOperations.cpp)\<close>

text \<open>
  A float division: \<^term>\<open>None\<close> when the divisor is zero, where C++ gives a NaN or an
  infinity and HOL's \<open>x / 0\<close> would give \<open>0\<close>; otherwise the rounded quotient.
\<close>

definition fdivWith :: "(real \<Rightarrow> real) \<Rightarrow> real \<Rightarrow> real \<Rightarrow> fval" where
  "fdivWith rnd a b = (if b = 0 then None else Some (rnd (a / b)))"

definition fdiv :: "real \<Rightarrow> real \<Rightarrow> fval" where
  "fdiv a b = fdivWith (\<lambda>x. x) a b"

text \<open>
  The local \<^verbatim>\<open>length\<close> of \<^verbatim>\<open>normalizeVec\<close>:
  \<^verbatim>\<open>std::sqrt((vec[0] * vec[0]) + (vec[1] * vec[1]) + (vec[2] * vec[2]))\<close>, the three
  products, the two sums from left to right and the square root each rounded to a
  \<^verbatim>\<open>float\<close>.
\<close>

definition vecLengthWith :: "(real \<Rightarrow> real) \<Rightarrow> vec3 \<Rightarrow> real" where
  "vecLengthWith rnd vec =
     (case vec of (x, y, z) \<Rightarrow>
        rnd (sqrt (rnd (rnd (rnd (x * x) + rnd (y * y)) + rnd (z * z)))))"

definition normalizeVecWith :: "(real \<Rightarrow> real) \<Rightarrow> vec3 \<Rightarrow> fvec3" where
  "normalizeVecWith rnd vec =
     (case vec of (x, y, z) \<Rightarrow>
        let len = vecLengthWith rnd vec in
        if len = 0 then (Some 0, Some 0, Some 0)
        else (fdivWith rnd x len, fdivWith rnd y len, fdivWith rnd z len))"


definition normalizeVec :: "vec3 \<Rightarrow> fvec3" where
  "normalizeVec vec = normalizeVecWith (\<lambda>x. x) vec"


definition crossProdVec :: "vec3 \<Rightarrow> vec3 \<Rightarrow> vec3" where
  "crossProdVec a b =
     (case a of (ax, ay, az) \<Rightarrow> case b of (bx, by, bz) \<Rightarrow>
        (((ay * bz) - (az * by)),
         ((az * bx) - (ax * bz)),
         ((ax * by) - (bx * ay))))"

section \<open>Matrices (src/utils/matrixOperations.cpp)\<close>

definition toRadians :: "real \<Rightarrow> real" where
  "toRadians x = x * (pi / 180)"

definition getPerspective :: "real \<Rightarrow> real \<Rightarrow> real \<Rightarrow> real \<Rightarrow> mat4" where
  "getPerspective fov aspectRatio near far =
     (let fovRad = toRadians fov; t = tan (fovRad / 2) in
      [1 / (aspectRatio * t), 0, 0, 0,
       0, 1 / t, 0, 0,
       0, 0, - ((far + near) / (far - near)), - ((2 * far * near) / (far - near)),
       0, 0, -1, 0])"

definition getIdentityMat4 :: mat4 where
  "getIdentityMat4 =
     [1, 0, 0, 0,
      0, 1, 0, 0,
      0, 0, 1, 0,
      0, 0, 0, 1]"

definition translateMatrix :: "mat4 \<Rightarrow> real \<Rightarrow> real \<Rightarrow> real \<Rightarrow> mat4" where
  "translateMatrix mat x y z =
     (let mat4 = mat;
          mat4 = mat4[12 := mat4 ! 12 + x];
          mat4 = mat4[13 := mat4 ! 13 + y];
          mat4 = mat4[14 := mat4 ! 14 + z]
      in mat4)"

text \<open>
  The innermost loop of \<^verbatim>\<open>multiplyMatrix\<close>: \<^verbatim>\<open>result[row * 4 + col]\<close> starts at \<open>0\<close> and
  gets the four products added for \<open>k = 0, 1, 2, 3\<close>.
\<close>

definition mulEntry :: "mat4 \<Rightarrow> mat4 \<Rightarrow> nat \<Rightarrow> nat \<Rightarrow> real" where
  "mulEntry mat1 mat2 row col =
     foldl (\<lambda>acc k. acc + mat1 ! (row * 4 + k) * mat2 ! (k * 4 + col)) 0 [0..<4]"

definition multiplyMatrix :: "mat4 \<Rightarrow> mat4 \<Rightarrow> mat4" where
  "multiplyMatrix mat1 mat2 =
     concat (map (\<lambda>row. map (\<lambda>col. mulEntry mat1 mat2 row col) [0..<4]) [0..<4])"

definition scaleMatrix :: "mat4 \<Rightarrow> real \<Rightarrow> mat4" where
  "scaleMatrix matrix scaleFactor =
     (let s = matrix;
          s = s[0 := s ! 0 * scaleFactor];
          s = s[5 := s ! 5 * scaleFactor];
          s = s[10 := s ! 10 * scaleFactor];
          s = s[12 := s ! 12 * scaleFactor];
          s = s[13 := s ! 13 * scaleFactor];
          s = s[14 := s ! 14 * scaleFactor]
      in s)"

definition getRotationMatrixY :: "real \<Rightarrow> mat4" where
  "getRotationMatrixY angle =
     (let c = cos angle; s = sin angle in
      [c, 0, s, 0,
       0, 1, 0, 0,
       - s, 0, c, 0,
       0, 0, 0, 1])"

section \<open>Camera (src/core/Camera.cpp)\<close>

definition NEAR :: real where "NEAR = 1"
definition FAR :: real where "FAR = 10"

text \<open>The fields of the camera that zooming reads or writes.\<close>

record Camera =
  m_fov :: real
  m_aspectRatio :: real
  m_projection :: mat4

text \<open>
  The constructor: \<^verbatim>\<open>m_fov(45.0f), m_aspectRatio(WIDTH / HEIGHT)\<close>, where
  \<^verbatim>\<open>WIDTH / HEIGHT\<close> is the division of the two \<^verbatim>\<open>int\<close> literals 1980 and 1080.
\<close>

definition Camera_new :: Camera where
  "Camera_new =
     \<lparr>m_fov = 45,
      m_aspectRatio = of_int (1980 div 1080),
      m_projection = getPerspective 45 (of_int (1980 div 1080)) NEAR FAR\<rparr>"

text \<open>
  \<^verbatim>\<open>Camera::updateCameraZoom\<close>: the subtraction is done when the field of view is inside
  the range on entry; the two other branches reset a value that is outside on entry.
\<close>

definition updateCameraZoom :: "real \<Rightarrow> Camera \<Rightarrow> Camera" where
  "updateCameraZoom dy c =
     (let fov' = (if 1 \<le> m_fov c \<and> m_fov c \<le> 45 then m_fov c - dy
                  else if m_fov c < 1 then 1
                  else 45)
      in c\<lparr>m_fov := fov', m_projection := getPerspective fov' (m_aspectRatio c) NEAR FAR\<rparr>)"

section \<open>Reading a line (\<^verbatim>\<open>std::istringstream\<close>)\<close>

text \<open>
  The parsers read a file line by line (\<^verbatim>\<open>getline\<close>) and each line through a string
  stream. \<^verbatim>\<open>getline\<close> cuts the text at every newline; a text that ends in a newline has no
  empty last line.
\<close>

definition newline :: char where
  "newline = CHR 0x0A"

fun splitNewline :: "string \<Rightarrow> string list" where
  "splitNewline [] = [[]]"
| "splitNewline (c # cs) =
     (if c = newline then [] # splitNewline cs
      else (case splitNewline cs of l # ls \<Rightarrow> (c # l) # ls | [] \<Rightarrow> [[c]]))"

definition getlines :: "string \<Rightarrow> string list" where
  "getlines text = (let ls = splitNewline text in if last ls = [] then butlast ls else ls)"

text \<open>\<^verbatim>\<open>isspace\<close> in the C locale: space, and the control characters 9 to 13.\<close>

definition isspace :: "char \<Rightarrow> bool" where
  "isspace c = (c = CHR '' '' \<or> (9 \<le> (of_char c :: nat) \<and> (of_char c :: nat) \<le> 13))"

definition isdigit :: "char \<Rightarrow> bool" where
  "isdigit c = (48 \<le> (of_char c :: nat) \<and> (of_char c :: nat) \<le> 57)"

text \<open>
  \<^verbatim>\<open>ss >> prefix\<close> for a \<^verbatim>\<open>std::string\<close>: skip the white space, take the characters up to
  the next white space. The pair is the word and what is left in the stream.
\<close>

definition readWord :: "string \<Rightarrow> string \<times> string" where
  "readWord s =
     (let s' = dropWhile isspace s
      in (takeWhile (\<lambda>c. \<not> isspace c) s', dropWhile (\<lambda>c. \<not> isspace c) s'))"

definition digitsVal :: "string \<Rightarrow> nat" where
  "digitsVal ds = foldl (\<lambda>n c. 10 * n + (of_char c - 48)) 0 ds"

text \<open>
  \<^verbatim>\<open>ss >> index\<close> for an \<^verbatim>\<open>unsigned int\<close> (decimal, as a string stream is by default): skip
  the white space, take an optional sign and the digits that follow. The extraction fails
  (\<^term>\<open>None\<close>) when there is no digit or the number does not fit in 32 bits; after a
  \<^verbatim>\<open>-\<close> the GNU library stores the number negated modulo \<open>2^32\<close>. On success the pair is
  the value and what is left in the stream.
\<close>

definition readUInt :: "string \<Rightarrow> (u32 \<times> string) option" where
  "readUInt s =
     (let s1 = dropWhile isspace s;
          neg = (s1 \<noteq> [] \<and> hd s1 = CHR ''-'');
          s2 = (if s1 \<noteq> [] \<and> (hd s1 = CHR ''-'' \<or> hd s1 = CHR ''+'') then tl s1 else s1);
          ds = takeWhile isdigit s2;
          n = digitsVal ds
      in if ds = [] \<or> 4294967295 < n then None
         else Some (if neg then - word_of_nat n else word_of_nat n, dropWhile isdigit s2))"

section \<open>Material (src/textures/Material.cpp)\<close>

record MaterialParams =
  name :: string
  Ns :: real
  Ka :: vec3
  Kd :: vec3
  Ks :: vec3
  Ke :: vec3
  Ni :: real
  opacity :: real
  illum :: real

text \<open>
  \<^verbatim>\<open>new Material()\<close>: the class has no user-provided constructor, so the parameters are
  zero-initialised and the name is the empty string.
\<close>

definition Material_new :: MaterialParams where
  "Material_new =
     \<lparr>name = [], Ns = 0, Ka = (0, 0, 0), Kd = (0, 0, 0), Ks = (0, 0, 0), Ke = (0, 0, 0),
      Ni = 0, opacity = 0, illum = 0\<rparr>"

text \<open>
  The extraction of a \<^verbatim>\<open>float\<close> (\<^verbatim>\<open>ss >> x\<close>) is a parameter \<open>rdf\<close> of the parser. On a
  stream it gives the number and the rest of the stream, or it fails; a failed extraction
  stores a value (\<open>0\<close> when no number could be read) or, when the stream was at its end,
  stores nothing. After a failure the later extractions of the same statement do nothing.
\<close>

datatype extraction = Extracted real string | Failed "real option"

type_synonym floatReader = "string \<Rightarrow> extraction"

definition storeFloat :: "extraction \<Rightarrow> real \<Rightarrow> real" where
  "storeFloat e old =
     (case e of Extracted v _ \<Rightarrow> v | Failed (Some v) \<Rightarrow> v | Failed None \<Rightarrow> old)"

definition readFloat3 :: "floatReader \<Rightarrow> string \<Rightarrow> vec3 \<Rightarrow> vec3" where
  "readFloat3 rdf s old =
     (case old of (o0, o1, o2) \<Rightarrow>
        (case rdf s of
           Failed st \<Rightarrow> (storeFloat (Failed st) o0, o1, o2)
         | Extracted a s1 \<Rightarrow>
             (case rdf s1 of
                Failed st \<Rightarrow> (a, storeFloat (Failed st) o1, o2)
              | Extracted b s2 \<Rightarrow> (a, b, storeFloat (rdf s2) o2))))"

text \<open>
  One line of \<^verbatim>\<open>Material::parseFile\<close>. The extraction of the name stores nothing when no
  word is left on the line.
\<close>

definition Material_parseLine :: "floatReader \<Rightarrow> string \<Rightarrow> MaterialParams \<Rightarrow> MaterialParams" where
  "Material_parseLine rdf line p =
     (if line = [] \<or> hd line = CHR ''#'' then p
      else
        let (prefix, ss) = readWord line in
        if prefix = ''newmtl'' then
          (if fst (readWord ss) = [] then p else p\<lparr>name := fst (readWord ss)\<rparr>)
        else if prefix = ''Ns'' then p\<lparr>Ns := storeFloat (rdf ss) (Ns p)\<rparr>
        else if prefix = ''Ka'' then p\<lparr>Ka := readFloat3 rdf ss (Ka p)\<rparr>
        else if prefix = ''Kd'' then p\<lparr>Kd := readFloat3 rdf ss (Kd p)\<rparr>
        else if prefix = ''Ks'' then p\<lparr>Ks := readFloat3 rdf ss (Ks p)\<rparr>
        else if prefix = ''Ke'' then p\<lparr>Ke := readFloat3 rdf ss (Ke p)\<rparr>
        else if prefix = ''Ni'' then p\<lparr>Ni := storeFloat (rdf ss) (Ni p)\<rparr>
        else if prefix = ''d'' then p\<lparr>opacity := storeFloat (rdf ss) (opacity p)\<rparr>
        else if prefix = ''illum'' then p\<lparr>illum := storeFloat (rdf ss) (illum p)\<rparr>
        else p)"

text \<open>\<^verbatim>\<open>Material::parseFile\<close>: \<^term>\<open>False\<close> only when the file cannot be opened.\<close>

definition Material_parseFile ::
  "floatReader \<Rightarrow> string option \<Rightarrow> MaterialParams \<Rightarrow> bool \<times> MaterialParams" where
  "Material_parseFile rdf file p =
     (case file of
        None \<Rightarrow> (False, p)
      | Some text \<Rightarrow> (True, foldl (\<lambda>q line. Material_parseLine rdf line q) p (getlines text)))"

definition setDefaultParams :: "MaterialParams \<Rightarrow> MaterialParams" where
  "setDefaultParams p =
     p\<lparr>name := ''defaultParamsSettings'',
       Ns := 10,
       Ka := (0, 0, 0),
       Kd := (8 / 10, 8 / 10, 8 / 10),
       Ks := (0, 0, 0),
       Ke := (0, 0, 0),
       opacity := 1,
       Ni := 1,
       illum := 2\<rparr>"

definition Material_create :: "floatReader \<Rightarrow> string option \<Rightarrow> MaterialParams" where
  "Material_create rdf file =
     (let mat = Material_new;
          (ok, mat) = Material_parseFile rdf file mat
      in if \<not> ok then setDefaultParams mat else mat)"

section \<open>Object (src/core/Object.cpp)\<close>

text \<open>
  A \<^verbatim>\<open>Vertex\<close>. The position is read from the file. The texture coordinates are quotients
  whose divisor can be zero, and the normal is made of results of \<^verbatim>\<open>normalizeVec\<close>: their
  components are of type \<^typ>\<open>fval\<close>, where \<^term>\<open>None\<close> is a value that is a NaN or an
  infinity, or is computed from one.
\<close>

record Vertex =
  position :: vec3
  uv :: "fval \<times> fval"
  normal :: fvec3

record Object =
  m_vertices :: "Vertex list"
  m_indices :: "u32 list"
  m_center :: vec3
  m_translationMatrix :: mat4
  m_rotationMatrix :: mat4
  m_matrix :: mat4
  m_scaleFactor :: real
  m_material :: "MaterialParams option"

text \<open>
  \<^verbatim>\<open>new Object()\<close>: empty vectors, a null material, and zero-initialised arrays.
\<close>

definition Object_new :: Object where
  "Object_new =
     \<lparr>m_vertices = [], m_indices = [], m_center = (0, 0, 0),
      m_translationMatrix = replicate 16 0, m_rotationMatrix = replicate 16 0,
      m_matrix = replicate 16 0, m_scaleFactor = 0, m_material = None\<rparr>"

subsection \<open>\<^verbatim>\<open>Object::parseFile\<close>\<close>

text \<open>
  The loop \<^verbatim>\<open>while (ss >> index) indices.push_back(index - 1);\<close> of a face line: it ends at
  the first extraction that fails. The subtraction is the one of \<^verbatim>\<open>unsigned int\<close>.
\<close>

function readIndices :: "string \<Rightarrow> u32 list" where
  "readIndices ss =
     (case readUInt ss of
        None \<Rightarrow> []
      | Some (index, ss') \<Rightarrow> (index - 1) # readIndices ss')"
  by pat_completeness auto

lemma length_dropWhile_less:
  "takeWhile P xs \<noteq> [] \<Longrightarrow> length (dropWhile P xs) < length xs"
  by (induction xs) (auto simp: less_Suc_eq_le length_dropWhile_le split: if_splits)

lemma readUInt_shorter:
  assumes "readUInt s = Some (v, r)"
  shows "length r < length s"
proof -
  define s1 where "s1 = dropWhile isspace s"
  define s2 where "s2 = (if s1 \<noteq> [] \<and> (hd s1 = CHR ''-'' \<or> hd s1 = CHR ''+'') then tl s1 else s1)"
  from assms have ds: "takeWhile isdigit s2 \<noteq> []" and r: "r = dropWhile isdigit s2"
    by (auto simp: readUInt_def Let_def s1_def s2_def split: if_splits)
  have "length r < length s2"
    using ds r by (simp add: length_dropWhile_less)
  also have "length s2 \<le> length s1"
    by (simp add: s2_def)
  also have "length s1 \<le> length s"
    by (simp add: s1_def length_dropWhile_le)
  finally show ?thesis .
qed

termination readIndices
  by (relation "measure length") (auto dest: readUInt_shorter)

declare readIndices.simps [simp del]

text \<open>What one face line appends to \<^verbatim>\<open>m_indices\<close>, from the indices read on it.\<close>

definition faceIndices :: "u32 list \<Rightarrow> u32 list" where
  "faceIndices indices =
     (if length indices = 3 then [indices ! 0, indices ! 1, indices ! 2]
      else if length indices = 4 then
        [indices ! 0, indices ! 1, indices ! 2,
         indices ! 0, indices ! 2, indices ! 3]
      else [])"

text \<open>
  The three extractions \<^verbatim>\<open>ss >> x >> y >> z\<close> of a vertex line are a parameter \<open>rdp\<close> of the
  parser: the values of \<^verbatim>\<open>x\<close>, \<^verbatim>\<open>y\<close>, \<^verbatim>\<open>z\<close> after them, from what follows the prefix. A
  vertex is appended whatever they read.
\<close>

type_synonym positionReader = "string \<Rightarrow> vec3"

text \<open>
  \<^verbatim>\<open>Vertex v{}; v.position = {x, y, z}; v.uv = {0.0f, 0.0f};\<close> the normal is
  zero from the value-initialisation.
\<close>

definition newVertex :: "vec3 \<Rightarrow> Vertex" where
  "newVertex p = \<lparr>position = p, uv = (Some 0, Some 0), normal = (Some 0, Some 0, Some 0)\<rparr>"

definition parseLine :: "positionReader \<Rightarrow> string \<Rightarrow> Object \<Rightarrow> Object" where
  "parseLine rdp line obj =
     (if line = [] \<or> hd line = CHR ''#'' then obj
      else
        let (prefix, ss) = readWord line in
        if prefix = ''v'' then
          obj\<lparr>m_vertices := m_vertices obj @ [newVertex (rdp ss)]\<rparr>
        else if prefix = ''f'' then
          obj\<lparr>m_indices := m_indices obj @ faceIndices (readIndices ss)\<rparr>
        else obj)"

definition parseLines :: "positionReader \<Rightarrow> string list \<Rightarrow> Object \<Rightarrow> Object" where
  "parseLines rdp ls obj = foldl (\<lambda>ob line. parseLine rdp line ob) obj ls"

subsection \<open>\<^verbatim>\<open>Object::calculateUV_XY\<close>\<close>

text \<open>
  The bounds of \<open>x\<close> and \<open>y\<close> over the vertices of a vector that is not empty, starting
  from \<^verbatim>\<open>m_vertices[0]\<close>, then for every vertex the two quotients
  \<^verbatim>\<open>(v.position[0] - minX) / (maxX - minX)\<close> and \<^verbatim>\<open>(v.position[1] - minY) / (maxY - minY)\<close>,
  whose divisor is not tested.
\<close>

definition boundsXY :: "Vertex list \<Rightarrow> real \<times> real \<times> real \<times> real" where
  "boundsXY vs =
     (case position (hd vs) of (x0, y0, z0) \<Rightarrow>
        foldl (\<lambda>(minX, maxX, minY, maxY) v.
                 (case position v of (x, y, z) \<Rightarrow>
                    (if x < minX then x else minX,
                     if maxX < x then x else maxX,
                     if y < minY then y else minY,
                     if maxY < y then y else maxY)))
              (x0, x0, y0, y0) vs)"

definition calculateUV_XY :: "Object \<Rightarrow> Object" where
  "calculateUV_XY obj =
     (if m_vertices obj = [] then obj
      else
        let (minX, maxX, minY, maxY) = boundsXY (m_vertices obj) in
        obj\<lparr>m_vertices :=
              map (\<lambda>v. case position v of (x, y, z) \<Rightarrow>
                         v\<lparr>uv := (fdiv (x - minX) (maxX - minX),
                                  fdiv (y - minY) (maxY - minY))\<rparr>)
                  (m_vertices obj)\<rparr>)"

subsection \<open>\<^verbatim>\<open>Object::computeNormals\<close>\<close>

text \<open>
  The sum \<^verbatim>\<open>+=\<close> of two floats, and \<^verbatim>\<open>normalizeVec\<close> applied to a stored normal. A normal
  with a component \<^term>\<open>None\<close> has a length that is a NaN or an infinity, and no quotient by
  it is a known number. That case is never reached: the face normals are results of
  \<^verbatim>\<open>normalizeVec\<close>, which divides by a length that is not zero, and every stored normal is
  a sum of them (\<open>computeNormals_finite\<close> below).
\<close>

definition fadd :: "fval \<Rightarrow> fval \<Rightarrow> fval" where
  "fadd a b = (case (a, b) of (Some x, Some y) \<Rightarrow> Some (x + y) | _ \<Rightarrow> None)"

definition normalizeNormal :: "fvec3 \<Rightarrow> fvec3" where
  "normalizeNormal n =
     (case n of
        (Some x, Some y, Some z) \<Rightarrow> normalizeVec (x, y, z)
      | _ \<Rightarrow> (None, None, None))"

text \<open>
  The body of the inner loop \<^verbatim>\<open>for (const unsigned int idx: indices)\<close>:
  \<^verbatim>\<open>m_vertices[idx].normal[k] += faceNormal[k]\<close>, for an index inside the vector.
\<close>

definition addNormal :: "u32 \<Rightarrow> fvec3 \<Rightarrow> Vertex list \<Rightarrow> Vertex list" where
  "addNormal idx faceNormal vs =
     (case normal (vs ! unat idx) of (n0, n1, n2) \<Rightarrow>
      case faceNormal of (f0, f1, f2) \<Rightarrow>
        vs[unat idx := (vs ! unat idx)\<lparr>normal := (fadd n0 f0, fadd n1 f1, fadd n2 f2)\<rparr>])"

text \<open>
  The loop \<^verbatim>\<open>for (size_t i = 0; i < m_indices.size(); i += 3)\<close>, on what is left of
  \<^verbatim>\<open>m_indices\<close> from \<open>i\<close> on. It reads \<^verbatim>\<open>m_indices[i + 1]\<close> and \<^verbatim>\<open>m_indices[i + 2]\<close>, and
  subscripts \<^verbatim>\<open>m_vertices\<close> with the three values, without a test: a subscript outside the
  vector is undefined behaviour.
\<close>

fun accumulateNormals :: "u32 list \<Rightarrow> Vertex list \<Rightarrow> Vertex list outcome" where
  "accumulateNormals [] vs = Returns vs"
| "accumulateNormals [i0] vs = Undefined"
| "accumulateNormals [i0, i1] vs = Undefined"
| "accumulateNormals (i0 # i1 # i2 # rest) vs =
     (if unat i0 < length vs \<and> unat i1 < length vs \<and> unat i2 < length vs then
        (case position (vs ! unat i0) of (v00, v01, v02) \<Rightarrow>
         case position (vs ! unat i1) of (v10, v11, v12) \<Rightarrow>
         case position (vs ! unat i2) of (v20, v21, v22) \<Rightarrow>
           let edge1 = (v10 - v00, v11 - v01, v12 - v02);
               edge2 = (v20 - v00, v21 - v01, v22 - v02);
               faceNormal = crossProdVec edge1 edge2;
               faceNormal = normalizeVec faceNormal
           in accumulateNormals rest
                (addNormal i2 faceNormal (addNormal i1 faceNormal (addNormal i0 faceNormal vs))))
      else Undefined)"

definition computeNormals :: "Object \<Rightarrow> Object outcome" where
  "computeNormals obj =
     (let vs = map (\<lambda>v. v\<lparr>normal := (Some 0, Some 0, Some 0)\<rparr>) (m_vertices obj) in
      case accumulateNormals (m_indices obj) vs of
        Undefined \<Rightarrow> Undefined
      | Returns vs \<Rightarrow>
          Returns (obj\<lparr>m_vertices := map (\<lambda>v. v\<lparr>normal := normalizeNormal (normal v)\<rparr>) vs\<rparr>))"

text \<open>A vector of three numbers, none of them a NaN or an infinity.\<close>

definition finiteVec :: "fvec3 \<Rightarrow> bool" where
  "finiteVec n = (case n of (Some x, Some y, Some z) \<Rightarrow> True | _ \<Rightarrow> False)"

text \<open>Every subscript of \<^verbatim>\<open>m_vertices\<close> in \<^verbatim>\<open>computeNormals\<close> is inside the vector:\<close>

definition computeNormals_in_bounds :: "Object \<Rightarrow> bool" where
  "computeNormals_in_bounds obj =
     list_all (\<lambda>i. unat i < length (m_vertices obj)) (m_indices obj)"

subsection \<open>\<^verbatim>\<open>Object::parseFile\<close>, after the loop\<close>

text \<open>
  \<^verbatim>\<open>parseFile\<close> returns \<open>1\<close> when the file cannot be opened, and when a list is empty after
  the loop; otherwise it runs \<^verbatim>\<open>calculateUV_XY\<close> and \<^verbatim>\<open>computeNormals\<close> and returns \<open>0\<close>.
\<close>

definition parseFile ::
  "positionReader \<Rightarrow> string option \<Rightarrow> Object \<Rightarrow> (int \<times> Object) outcome" where
  "parseFile rdp file obj =
     (case file of
        None \<Rightarrow> Returns (1, obj)
      | Some text \<Rightarrow>
          let obj = parseLines rdp (getlines text) obj in
          if m_vertices obj = [] \<or> m_indices obj = [] then Returns (1, obj)
          else
            (case computeNormals (calculateUV_XY obj) of
               Undefined \<Rightarrow> Undefined
             | Returns obj \<Rightarrow> Returns (0, obj)))"

subsection \<open>Center and scale\<close>

text \<open>
  \<^verbatim>\<open>calculateCenter\<close>. The parameter \<open>rnd\<close> is the rounding of each float operation:
  the identity for exact arithmetic, \<open>fl32\<close> for binary32. \<^verbatim>\<open>count\<close> is a \<^verbatim>\<open>size_t\<close>,
  converted to \<^verbatim>\<open>float\<close> for the division.
\<close>

definition sumPositions :: "(real \<Rightarrow> real) \<Rightarrow> Vertex list \<Rightarrow> vec3" where
  "sumPositions rnd vs =
     foldl (\<lambda>(sumX, sumY, sumZ) v.
              (case position v of (x, y, z) \<Rightarrow> (rnd (sumX + x), rnd (sumY + y), rnd (sumZ + z))))
           (0, 0, 0) vs"

definition calculateCenterWith :: "(real \<Rightarrow> real) \<Rightarrow> Object \<Rightarrow> vec3" where
  "calculateCenterWith rnd obj =
     (let (sumX, sumY, sumZ) = sumPositions rnd (m_vertices obj);
          count = rnd (real (length (m_vertices obj)))
      in (rnd (sumX / count), rnd (sumY / count), rnd (sumZ / count)))"

definition calculateCenter :: "Object \<Rightarrow> vec3" where
  "calculateCenter obj = calculateCenterWith (\<lambda>x. x) obj"

definition calculateCenter_f32 :: "Object \<Rightarrow> vec3" where
  "calculateCenter_f32 obj = calculateCenterWith fl32 obj"

text \<open>\<^verbatim>\<open>calculateScale\<close>: the largest extent of the bounding box.\<close>

definition calculateScale :: "Object \<Rightarrow> real" where
  "calculateScale obj =
     (case m_vertices obj of
        [] \<Rightarrow> 0
      | v # _ \<Rightarrow>
          (case position v of (x0, y0, z0) \<Rightarrow>
             let (mn, mx) =
               foldl (\<lambda>((mn0, mn1, mn2), (mx0, mx1, mx2)) vp.
                        (case position vp of (x, y, z) \<Rightarrow>
                           ((if x < mn0 then x else mn0,
                             if y < mn1 then y else mn1,
                             if z < mn2 then z else mn2),
                            (if mx0 < x then x else mx0,
                             if mx1 < y then y else mx1,
                             if mx2 < z then z else mx2))))
                     ((x0, y0, z0), (x0, y0, z0)) (m_vertices obj)
             in (case (mn, mx) of ((mn0, mn1, mn2), (mx0, mx1, mx2)) \<Rightarrow>
                   max (max (mx0 - mn0) (mx1 - mn1)) (mx2 - mn2))))"

subsection \<open>\<^verbatim>\<open>Object::create\<close>\<close>

text \<open>
  The two files are given by their contents: the mesh file, and the material file whose path
  \<^verbatim>\<open>create\<close> derives from the path of the mesh. \<^verbatim>\<open>initBuffers\<close> hands the two lists
  to the graphics library and changes neither; it is left out. When the extent is \<open>0\<close> the
  \<^verbatim>\<open>float\<close> quotient \<^verbatim>\<open>1.0f / calculateScale()\<close> is an infinity, which \<^typ>\<open>real\<close> does
  not have; nothing below rests on the scale factor of such a mesh.
\<close>

definition create ::
  "positionReader \<Rightarrow> floatReader \<Rightarrow> string option \<Rightarrow> string option \<Rightarrow>
   Object option outcome" where
  "create rdp rdf objFile mtlFile =
     (let obj = Object_new in
      case parseFile rdp objFile obj of
        Undefined \<Rightarrow> Undefined
      | Returns (rc, obj) \<Rightarrow>
          if rc \<noteq> 0 then Returns None
          else
            let obj = obj\<lparr>m_center := calculateCenter obj\<rparr>;
                obj = obj\<lparr>m_scaleFactor := 1 / calculateScale obj\<rparr>;
                obj = obj\<lparr>m_matrix := getIdentityMat4\<rparr>;
                obj = obj\<lparr>m_translationMatrix := getIdentityMat4\<rparr>;
                obj = obj\<lparr>m_rotationMatrix := getIdentityMat4\<rparr>;
                obj = obj\<lparr>m_material := Some (Material_create rdf mtlFile)\<rparr>
            in Returns (Some obj))"

subsection \<open>Transformations\<close>

definition updateRotationMatrixY :: "real \<Rightarrow> Object \<Rightarrow> Object" where
  "updateRotationMatrixY angle obj =
     (case m_center obj of (c0, c1, c2) \<Rightarrow>
        let centeredMatrix = translateMatrix getIdentityMat4 (- c0) (- c1) (- c2);
            rotationMatrix = getRotationMatrixY angle;
            originMatrix = translateMatrix getIdentityMat4 c0 c1 c2;
            rotAroundCenter = multiplyMatrix centeredMatrix (multiplyMatrix rotationMatrix originMatrix)
        in obj\<lparr>m_rotationMatrix := multiplyMatrix rotAroundCenter (m_rotationMatrix obj)\<rparr>)"

text \<open>\<^verbatim>\<open>getMatrix\<close> writes \<^verbatim>\<open>m_matrix\<close> four times and returns it.\<close>

definition getMatrix :: "Object \<Rightarrow> mat4 \<times> Object" where
  "getMatrix obj =
     (case m_center obj of (c0, c1, c2) \<Rightarrow>
        let obj = obj\<lparr>m_matrix := translateMatrix getIdentityMat4 (- c0) (- c1) (- c2)\<rparr>;
            obj = obj\<lparr>m_matrix := scaleMatrix (m_matrix obj) (m_scaleFactor obj)\<rparr>;
            obj = obj\<lparr>m_matrix := multiplyMatrix (m_matrix obj) (m_translationMatrix obj)\<rparr>;
            obj = obj\<lparr>m_matrix := multiplyMatrix (m_rotationMatrix obj) (m_matrix obj)\<rparr>
        in (m_matrix obj, obj))"

text \<open>
  The local \<^verbatim>\<open>rotAroundCenter\<close> of \<^verbatim>\<open>updateRotationMatrixY\<close>, as a function of the centre
  and the angle.
\<close>

definition rotAroundCenter :: "vec3 \<Rightarrow> real \<Rightarrow> mat4" where
  "rotAroundCenter c angle =
     (case c of (c0, c1, c2) \<Rightarrow>
        multiplyMatrix (translateMatrix getIdentityMat4 (- c0) (- c1) (- c2))
          (multiplyMatrix (getRotationMatrixY angle) (translateMatrix getIdentityMat4 c0 c1 c2)))"

section \<open>Vocabulary for the statements about the parser\<close>

text \<open>The decimal numeral of a natural number, and a face line made of such numerals.\<close>

fun showNat :: "nat \<Rightarrow> string" where
  "showNat n =
     (if n < 10 then [char_of (48 + n)]
      else showNat (n div 10) @ [char_of (48 + n mod 10)])"

fun numerals :: "nat list \<Rightarrow> string" where
  "numerals [] = []"
| "numerals (n # ns) = CHR '' '' # showNat n @ numerals ns"

definition faceLine :: "nat list \<Rightarrow> string" where
  "faceLine ns = CHR ''f'' # numerals ns"

declare showNat.simps [simp del]

text \<open>What is left of a line after a numeral: nothing, or something that starts with a blank.\<close>

definition blankStart :: "string \<Rightarrow> bool" where
  "blankStart r = (r = [] \<or> hd r = CHR '' '')"

text \<open>The lines that add a vertex, and the lines that add a face.\<close>

definition isVertexLine :: "string \<Rightarrow> bool" where
  "isVertexLine line = (line \<noteq> [] \<and> hd line \<noteq> CHR ''#'' \<and> fst (readWord line) = ''v'')"

definition isFaceLine :: "string \<Rightarrow> bool" where
  "isFaceLine line = (line \<noteq> [] \<and> hd line \<noteq> CHR ''#'' \<and> fst (readWord line) = ''f'')"

definition indexCount :: "string \<Rightarrow> nat" where
  "indexCount line = length (readIndices (snd (readWord line)))"

definition isValidFaceLine :: "string \<Rightarrow> bool" where
  "isValidFaceLine line = (isFaceLine line \<and> (indexCount line = 3 \<or> indexCount line = 4))"

text \<open>
  Readers for the examples: plain decimal numerals (an optional sign, digits, an optional
  fraction). For a vertex line the three variables start at \<open>0\<close>.
\<close>

definition readDecimal :: floatReader where
  "readDecimal s =
     (let s1 = dropWhile isspace s;
          neg = (s1 \<noteq> [] \<and> hd s1 = CHR ''-'');
          s2 = (if s1 \<noteq> [] \<and> (hd s1 = CHR ''-'' \<or> hd s1 = CHR ''+'') then tl s1 else s1);
          ip = takeWhile isdigit s2;
          s3 = dropWhile isdigit s2;
          frac = (s3 \<noteq> [] \<and> hd s3 = CHR ''.'');
          fp = (if frac then takeWhile isdigit (tl s3) else []);
          s4 = (if frac then dropWhile isdigit (tl s3) else s3);
          v = real (digitsVal ip) + real (digitsVal fp) / 10 ^ length fp
      in if s1 = [] then Failed None
         else if ip = [] \<and> fp = [] then Failed (Some 0)
         else Extracted (if neg then - v else v) s4)"

definition decimalPosition :: positionReader where
  "decimalPosition ss = readFloat3 readDecimal ss (0, 0, 0)"

section \<open>Objects for the examples\<close>

definition vertexAt :: "real \<Rightarrow> real \<Rightarrow> real \<Rightarrow> Vertex" where
  "vertexAt x y z = newVertex (x, y, z)"

definition meshOf :: "Vertex list \<Rightarrow> Object" where
  "meshOf vs = Object_new\<lparr>m_vertices := vs\<rparr>"

definition exampleObject :: Object where
  "exampleObject =
     Object_new\<lparr>m_center := (1, 2, 3), m_scaleFactor := 1 / 2,
       m_translationMatrix := [1, 0, 0, 0, 0, 1, 0, 0, 0, 0, 1, 0, 4, 0, 0, 1],
       m_rotationMatrix := [0, 0, 1, 0, 0, 1, 0, 0, - 1, 0, 0, 0, 0, 0, 0, 1]\<rparr>"

section \<open>Matrix products\<close>

lemma upt_4: "[0..<4] = [0, 1, 2, 3]"
  by (simp add: upt_rec)

lemma sum_lessThan_4: "(\<Sum>k<(4::nat). f k) = f 0 + f 1 + f 2 + (f 3 :: real)"
  by (simp add: eval_nat_numeral)

lemma mulEntry_sum:
  "mulEntry a b row col = (\<Sum>k<4. a ! (row * 4 + k) * b ! (k * 4 + col))"
  by (simp add: mulEntry_def upt_4 sum_lessThan_4)

lemma multiplyMatrix_expand:
  "multiplyMatrix a b =
     [mulEntry a b 0 0, mulEntry a b 0 1, mulEntry a b 0 2, mulEntry a b 0 3,
      mulEntry a b 1 0, mulEntry a b 1 1, mulEntry a b 1 2, mulEntry a b 1 3,
      mulEntry a b 2 0, mulEntry a b 2 1, mulEntry a b 2 2, mulEntry a b 2 3,
      mulEntry a b 3 0, mulEntry a b 3 1, mulEntry a b 3 2, mulEntry a b 3 3]"
  by (simp add: multiplyMatrix_def upt_4)

lemma length_multiplyMatrix: "length (multiplyMatrix a b) = 16"
  by (simp add: multiplyMatrix_expand)

lemma multiplyMatrix_nth:
  assumes "row < 4" "col < 4"
  shows "multiplyMatrix a b ! (row * 4 + col) = mulEntry a b row col"
proof -
  from assms have "row \<in> {0, 1, 2, 3}" "col \<in> {0, 1, 2, 3}" by auto
  then show ?thesis
    by (auto simp: multiplyMatrix_expand)
qed

lemma mulEntry_assoc:
  assumes "row < 4" "col < 4"
  shows "mulEntry (multiplyMatrix a b) c row col = mulEntry a (multiplyMatrix b c) row col"
proof -
  have "mulEntry (multiplyMatrix a b) c row col
      = (\<Sum>k<4. (\<Sum>j<4. a ! (row * 4 + j) * b ! (j * 4 + k)) * c ! (k * 4 + col))"
    unfolding mulEntry_sum[of "multiplyMatrix a b"]
    using assms by (intro sum.cong refl) (simp add: multiplyMatrix_nth mulEntry_sum)
  also have "\<dots> = (\<Sum>k<4. \<Sum>j<4. a ! (row * 4 + j) * (b ! (j * 4 + k) * c ! (k * 4 + col)))"
    by (simp add: sum_distrib_right mult.assoc)
  also have "\<dots> = (\<Sum>j<4. \<Sum>k<4. a ! (row * 4 + j) * (b ! (j * 4 + k) * c ! (k * 4 + col)))"
    by (rule sum.swap)
  also have "\<dots> = (\<Sum>j<4. a ! (row * 4 + j) * (\<Sum>k<4. b ! (j * 4 + k) * c ! (k * 4 + col)))"
    by (simp add: sum_distrib_left)
  also have "\<dots> = mulEntry a (multiplyMatrix b c) row col"
    unfolding mulEntry_sum[of a "multiplyMatrix b c"]
    using assms by (intro sum.cong refl) (simp add: multiplyMatrix_nth mulEntry_sum)
  finally show ?thesis .
qed

lemma multiplyMatrix_assoc:
  "multiplyMatrix (multiplyMatrix a b) c = multiplyMatrix a (multiplyMatrix b c)"
  unfolding multiplyMatrix_expand[of "multiplyMatrix a b"] multiplyMatrix_expand[of a "multiplyMatrix b c"]
  by (simp add: mulEntry_assoc)

lemma mulEntry_eq:
  "mulEntry a b row col =
     a ! (row * 4) * b ! col + a ! (row * 4 + 1) * b ! (4 + col)
     + a ! (row * 4 + 2) * b ! (8 + col) + a ! (row * 4 + 3) * b ! (12 + col)"
  by (simp add: mulEntry_def upt_4)

text \<open>The matrices of a translation and of the rotation about the centre, written out.\<close>

lemma translateMatrix_identity:
  "translateMatrix getIdentityMat4 x y z = [1, 0, 0, 0, 0, 1, 0, 0, 0, 0, 1, 0, x, y, z, 1]"
  by (simp add: translateMatrix_def getIdentityMat4_def)

lemma rotAroundCenter_expand:
  "rotAroundCenter (c0, c1, c2) angle =
     [cos angle, 0, sin angle, 0,
      0, 1, 0, 0,
      - sin angle, 0, cos angle, 0,
      c0 - c0 * cos angle + c2 * sin angle, 0, c2 - c0 * sin angle - c2 * cos angle, 1]"
  by (simp add: rotAroundCenter_def translateMatrix_identity getRotationMatrixY_def Let_def
      multiplyMatrix_expand mulEntry_eq)

lemma rotAroundCenter_add:
  "multiplyMatrix (rotAroundCenter c b) (rotAroundCenter c a) = rotAroundCenter c (a + b)"
proof (cases c)
  case (fields c0 c1 c2)
  show ?thesis
    unfolding fields rotAroundCenter_expand
    by (simp add: multiplyMatrix_expand mulEntry_eq cos_add sin_add algebra_simps)
qed

lemma updateRotationMatrixY_rotAroundCenter:
  "updateRotationMatrixY angle obj =
     obj\<lparr>m_rotationMatrix := multiplyMatrix (rotAroundCenter (m_center obj) angle) (m_rotationMatrix obj)\<rparr>"
  by (simp add: updateRotationMatrixY_def rotAroundCenter_def Let_def split: prod.splits)

lemma updateRotationMatrixY_twice:
  "updateRotationMatrixY b (updateRotationMatrixY a obj) = updateRotationMatrixY (a + b) obj"
  by (simp add: updateRotationMatrixY_rotAroundCenter multiplyMatrix_assoc[symmetric] rotAroundCenter_add)

section \<open>The model matrix\<close>

lemma scaled_centering:
  "scaleMatrix (translateMatrix getIdentityMat4 (- c0) (- c1) (- c2)) k =
     [k, 0, 0, 0, 0, k, 0, 0, 0, 0, k, 0, - c0 * k, - c1 * k, - c2 * k, 1]"
  by (simp add: scaleMatrix_def translateMatrix_identity)

text \<open>
  C4. For an object with centre \<open>(c0, c1, c2)\<close>, \<^verbatim>\<open>getMatrix\<close> returns
  \<open>rotation \<cdot> (scaleMatrix (T(-centre)) scaleFactor \<cdot> translation)\<close>, built in that order from
  the identity; the scaled centring matrix is written out. It stores the result in
  \<^verbatim>\<open>m_matrix\<close> and changes no other field; the value of \<^verbatim>\<open>m_matrix\<close> before the call has
  no effect, so every call computes the matrix again.
\<close>

theorem getMatrix_composition:
  assumes "m_center obj = (c0, c1, c2)"
  shows "fst (getMatrix obj) =
           multiplyMatrix (m_rotationMatrix obj)
             (multiplyMatrix
                (scaleMatrix (translateMatrix getIdentityMat4 (- c0) (- c1) (- c2))
                   (m_scaleFactor obj))
                (m_translationMatrix obj))
         \<and> scaleMatrix (translateMatrix getIdentityMat4 (- c0) (- c1) (- c2)) (m_scaleFactor obj) =
             [m_scaleFactor obj, 0, 0, 0,
              0, m_scaleFactor obj, 0, 0,
              0, 0, m_scaleFactor obj, 0,
              - c0 * m_scaleFactor obj, - c1 * m_scaleFactor obj, - c2 * m_scaleFactor obj, 1]
         \<and> snd (getMatrix obj) = obj\<lparr>m_matrix := fst (getMatrix obj)\<rparr>
         \<and> getMatrix (obj\<lparr>m_matrix := stale\<rparr>) = getMatrix obj
         \<and> getMatrix (snd (getMatrix obj)) = getMatrix obj"
  using assms by (simp add: getMatrix_def Let_def scaled_centering)

text \<open>
  The example object: the centred matrix scaled by \<open>1/2\<close>, moved by \<open>4\<close> along x, then
  turned by the stored rotation.
\<close>

theorem getMatrix_composition_witness:
  "m_center exampleObject = (1, 2, 3)
   \<and> fst (getMatrix exampleObject) =
       [0, 0, 1 / 2, 0, 0, 1 / 2, 0, 0, - (1 / 2), 0, 0, 0, 7 / 2, - 1, - (3 / 2), 1]
   \<and> getMatrix (snd (getMatrix exampleObject)) = getMatrix exampleObject"
proof -
  have c: "m_center exampleObject = (1, 2, 3)"
    by (simp add: exampleObject_def)
  have f: "m_rotationMatrix exampleObject = [0, 0, 1, 0, 0, 1, 0, 0, - 1, 0, 0, 0, 0, 0, 0, 1]"
    "m_translationMatrix exampleObject = [1, 0, 0, 0, 0, 1, 0, 0, 0, 0, 1, 0, 4, 0, 0, 1]"
    "m_scaleFactor exampleObject = 1 / 2"
    by (simp_all add: exampleObject_def)
  note t = getMatrix_composition[OF c]
  have "fst (getMatrix exampleObject) =
      multiplyMatrix [0, 0, 1, 0, 0, 1, 0, 0, - 1, 0, 0, 0, 0, 0, 0, 1]
        (multiplyMatrix
           (scaleMatrix (translateMatrix getIdentityMat4 (- 1) (- 2) (- 3)) (1 / 2))
           [1, 0, 0, 0, 0, 1, 0, 0, 0, 0, 1, 0, 4, 0, 0, 1])"
    using t[THEN conjunct1] unfolding f .
  then have "fst (getMatrix exampleObject) =
       [0, 0, 1 / 2, 0, 0, 1 / 2, 0, 0, - (1 / 2), 0, 0, 0, 7 / 2, - 1, - (3 / 2), 1]"
    by (simp add: scaled_centering multiplyMatrix_expand mulEntry_eq)
  moreover have "getMatrix (snd (getMatrix exampleObject)) = getMatrix exampleObject"
    using t by blast
  ultimately show ?thesis
    using c by blast
qed

section \<open>Rounding to binary32\<close>

text \<open>Values of the rounding to binary32.\<close>

lemma floor_log2_eq:
  assumes "2 powi k \<le> x" "x < 2 powi (k + 1)"
  shows "\<lfloor>log 2 x\<rfloor> = k"
proof -
  have p: "(2::real) powr of_int k = 2 powi k" "(2::real) powr (of_int k + 1) = 2 powi (k + 1)"
    using powr_real_of_int'[of 2 k] powr_real_of_int'[of 2 "k + 1"] by simp_all
  have "0 < (2::real) powi k"
    by simp
  with assms(1) have pos: "0 < x"
    by linarith
  have "of_int k \<le> log 2 x"
    using assms(1) pos by (simp add: le_log_iff p)
  moreover have "log 2 x < of_int k + 1"
    using assms(2) pos by (simp add: log_less_iff p)
  ultimately show ?thesis
    by (simp add: floor_eq_iff)
qed

lemma fl32_eval:
  assumes "2 powi k \<le> \<bar>x\<bar>" "\<bar>x\<bar> < 2 powi (k + 1)" "- 126 \<le> k"
  shows "fl32 x = of_int (roundHalfEven (x / 2 powi (k - 23))) * 2 powi (k - 23)"
proof -
  have "0 < (2::real) powi k"
    by simp
  with assms(1) have "0 < \<bar>x\<bar>"
    by linarith
  then have "x \<noteq> 0"
    by simp
  moreover have "\<lfloor>log 2 \<bar>x\<bar>\<rfloor> = k"
    by (rule floor_log2_eq[OF assms(1,2)])
  moreover have "max (k - 23) (- 149) = k - 23"
    using assms(3) by simp
  ultimately show ?thesis
    by (simp add: fl32_def Let_def)
qed


lemma fl32_0: "fl32 0 = 0"
  by (simp add: fl32_def)

lemma fl32_1: "fl32 1 = 1"
  using fl32_eval[of 0 1] by (simp add: roundHalfEven_def)

lemma fl32_3: "fl32 3 = 3"
  using fl32_eval[of 1 3] by (simp add: roundHalfEven_def)

lemma fl32_2p24: "fl32 16777216 = 16777216"
  using fl32_eval[of 24 16777216] by (simp add: roundHalfEven_def)

lemma fl32_2p24_1: "fl32 16777217 = 16777216"
  using fl32_eval[of 24 16777217] by (simp add: roundHalfEven_def)

lemma fl32_third: "fl32 (1 / 3) = 11184811 / 33554432"
  using fl32_eval[of "-2" "1 / 3"] by (simp add: roundHalfEven_def)



section \<open>Normalisation\<close>




lemma normalizeVecWith_cases:
  "normalizeVecWith rnd (x, y, z) =
     (if vecLengthWith rnd (x, y, z) = 0 then (Some 0, Some 0, Some 0)
      else (Some (rnd (x / vecLengthWith rnd (x, y, z))),
            Some (rnd (y / vecLengthWith rnd (x, y, z))),
            Some (rnd (z / vecLengthWith rnd (x, y, z)))))"
  by (simp add: normalizeVecWith_def fdivWith_def Let_def)






section \<open>Rotation about the centre\<close>

text \<open>
  C6. One call of \<^verbatim>\<open>updateRotationMatrixY\<close> changes the rotation matrix only, and puts
  \<open>(T(-centre) \<cdot> R\<^sub>y(angle) \<cdot> T(centre))\<close> in front of it, where \<open>R\<^sub>y(angle)\<close> is the matrix of
  \<open>cos angle\<close> and \<open>sin angle\<close> of \<^verbatim>\<open>getRotationMatrixY\<close> and \<open>T\<close> a translation; the product
  of the three is written out. A call with \<open>a\<close> then a call with \<open>b\<close> leave the object as one
  call with \<open>a + b\<close> does, so two calls with \<open>90\<close> as one call with \<open>180\<close>, the floats being
  reals.
\<close>

theorem rotate_twice_90_is_180:
  fixes ob :: Object
  assumes ob: "m_center ob = (c0, c1, c2)"
  shows "updateRotationMatrixY angle ob =
           ob\<lparr>m_rotationMatrix :=
                multiplyMatrix
                  (multiplyMatrix
                     (multiplyMatrix (translateMatrix getIdentityMat4 (- c0) (- c1) (- c2))
                        (getRotationMatrixY angle))
                     (translateMatrix getIdentityMat4 c0 c1 c2))
                  (m_rotationMatrix ob)\<rparr>
         \<and> getRotationMatrixY angle =
             [cos angle, 0, sin angle, 0,
              0, 1, 0, 0,
              - sin angle, 0, cos angle, 0,
              0, 0, 0, 1]
         \<and> translateMatrix getIdentityMat4 c0 c1 c2 =
             [1, 0, 0, 0,
              0, 1, 0, 0,
              0, 0, 1, 0,
              c0, c1, c2, 1]
         \<and> multiplyMatrix
             (multiplyMatrix (translateMatrix getIdentityMat4 (- c0) (- c1) (- c2))
                (getRotationMatrixY angle))
             (translateMatrix getIdentityMat4 c0 c1 c2) =
             [cos angle, 0, sin angle, 0,
              0, 1, 0, 0,
              - sin angle, 0, cos angle, 0,
              c0 - c0 * cos angle + c2 * sin angle, 0, c2 - c0 * sin angle - c2 * cos angle, 1]
         \<and> updateRotationMatrixY b (updateRotationMatrixY a ob) = updateRotationMatrixY (a + b) ob
         \<and> updateRotationMatrixY 90 (updateRotationMatrixY 90 ob) = updateRotationMatrixY 180 ob"
proof -
  have r: "rotAroundCenter (c0, c1, c2) angle =
      multiplyMatrix
        (multiplyMatrix (translateMatrix getIdentityMat4 (- c0) (- c1) (- c2))
           (getRotationMatrixY angle))
        (translateMatrix getIdentityMat4 c0 c1 c2)"
    by (simp add: rotAroundCenter_def multiplyMatrix_assoc)
  have "updateRotationMatrixY angle ob =
          ob\<lparr>m_rotationMatrix :=
               multiplyMatrix (rotAroundCenter (c0, c1, c2) angle) (m_rotationMatrix ob)\<rparr>"
    by (simp add: updateRotationMatrixY_rotAroundCenter ob)
  then have 1: "updateRotationMatrixY angle ob =
           ob\<lparr>m_rotationMatrix :=
                multiplyMatrix
                  (multiplyMatrix
                     (multiplyMatrix (translateMatrix getIdentityMat4 (- c0) (- c1) (- c2))
                        (getRotationMatrixY angle))
                     (translateMatrix getIdentityMat4 c0 c1 c2))
                  (m_rotationMatrix ob)\<rparr>"
    unfolding r .
  have 2: "getRotationMatrixY angle =
             [cos angle, 0, sin angle, 0, 0, 1, 0, 0, - sin angle, 0, cos angle, 0, 0, 0, 0, 1]"
    by (simp add: getRotationMatrixY_def Let_def)
  have 3: "translateMatrix getIdentityMat4 c0 c1 c2 =
             [1, 0, 0, 0, 0, 1, 0, 0, 0, 0, 1, 0, c0, c1, c2, 1]"
    by (rule translateMatrix_identity)
  have 4: "multiplyMatrix
             (multiplyMatrix (translateMatrix getIdentityMat4 (- c0) (- c1) (- c2))
                (getRotationMatrixY angle))
             (translateMatrix getIdentityMat4 c0 c1 c2) =
             [cos angle, 0, sin angle, 0,
              0, 1, 0, 0,
              - sin angle, 0, cos angle, 0,
              c0 - c0 * cos angle + c2 * sin angle, 0, c2 - c0 * sin angle - c2 * cos angle, 1]"
    unfolding r[symmetric] by (rule rotAroundCenter_expand)
  have 5: "updateRotationMatrixY b (updateRotationMatrixY a ob) = updateRotationMatrixY (a + b) ob"
    by (rule updateRotationMatrixY_twice)
  have 6: "updateRotationMatrixY 90 (updateRotationMatrixY 90 ob) = updateRotationMatrixY 180 ob"
    using updateRotationMatrixY_twice[of 90 90 ob] by simp
  from 1 2 3 4 5 6 show ?thesis
    by blast
qed

text \<open>
  The object with the centre \<open>(1, 2, 3)\<close>: a quarter turn, two quarter turns and a half turn,
  with the matrices computed, and the two calls with \<open>90\<close>.
\<close>

theorem rotate_twice_90_is_180_witness:
  "m_center exampleObject = (1, 2, 3)
   \<and> m_rotationMatrix exampleObject = [0, 0, 1, 0, 0, 1, 0, 0, - 1, 0, 0, 0, 0, 0, 0, 1]
   \<and> m_rotationMatrix (updateRotationMatrixY (pi / 2) exampleObject) =
       [- 1, 0, 0, 0, 0, 1, 0, 0, 0, 0, - 1, 0, - 2, 0, 4, 1]
   \<and> m_rotationMatrix (updateRotationMatrixY (pi / 2) (updateRotationMatrixY (pi / 2) exampleObject)) =
       [0, 0, - 1, 0, 0, 1, 0, 0, 1, 0, 0, 0, - 6, 0, 2, 1]
   \<and> m_rotationMatrix (updateRotationMatrixY pi exampleObject) =
       [0, 0, - 1, 0, 0, 1, 0, 0, 1, 0, 0, 0, - 6, 0, 2, 1]
   \<and> updateRotationMatrixY 90 (updateRotationMatrixY 90 exampleObject) =
       updateRotationMatrixY 180 exampleObject"
proof -
  have c: "m_center exampleObject = (1, 2, 3)"
    and r: "m_rotationMatrix exampleObject = [0, 0, 1, 0, 0, 1, 0, 0, - 1, 0, 0, 0, 0, 0, 0, 1]"
    by (simp_all add: exampleObject_def)
  note t = rotate_twice_90_is_180[OF c]
  have q: "m_rotationMatrix (updateRotationMatrixY (pi / 2) exampleObject) =
       [- 1, 0, 0, 0, 0, 1, 0, 0, 0, 0, - 1, 0, - 2, 0, 4, 1]"
    unfolding t[of "pi / 2", THEN conjunct1]
    by (simp add: r translateMatrix_identity getRotationMatrixY_def Let_def multiplyMatrix_expand mulEntry_eq)
  have h: "m_rotationMatrix (updateRotationMatrixY pi exampleObject) =
       [0, 0, - 1, 0, 0, 1, 0, 0, 1, 0, 0, 0, - 6, 0, 2, 1]"
    unfolding t[of pi, THEN conjunct1]
    by (simp add: r translateMatrix_identity getRotationMatrixY_def Let_def multiplyMatrix_expand mulEntry_eq)
  have "updateRotationMatrixY (pi / 2) (updateRotationMatrixY (pi / 2) exampleObject) =
          updateRotationMatrixY (pi / 2 + pi / 2) exampleObject"
    using t[of _ "pi / 2" "pi / 2"] by blast
  then have qq: "m_rotationMatrix (updateRotationMatrixY (pi / 2) (updateRotationMatrixY (pi / 2) exampleObject)) =
       [0, 0, - 1, 0, 0, 1, 0, 0, 1, 0, 0, 0, - 6, 0, 2, 1]"
    using h by simp
  have "updateRotationMatrixY 90 (updateRotationMatrixY 90 exampleObject) =
       updateRotationMatrixY 180 exampleObject"
    using t by blast
  with c r q h qq show ?thesis
    by blast
qed

section \<open>Zoom\<close>

lemma fov_updateCameraZoom:
  "m_fov (updateCameraZoom dy c) =
     (if 1 \<le> m_fov c \<and> m_fov c \<le> 45 then m_fov c - dy else if m_fov c < 1 then 1 else 45)"
  by (simp add: updateCameraZoom_def Let_def)

lemma zoom_1000_alternates:
  "m_fov ((updateCameraZoom 1000 ^^ (2 * n + 1)) Camera_new) < 1
   \<and> m_fov ((updateCameraZoom 1000 ^^ (2 * n + 2)) Camera_new) = 1"
proof (induction n)
  case 0
  show ?case
    by (simp add: fov_updateCameraZoom Camera_new_def)
next
  case (Suc n)
  have "2 * Suc n + 1 = Suc (2 * n + 2)" "2 * Suc n + 2 = Suc (Suc (2 * n + 2))"
    by simp_all
  then show ?case
    using Suc by (simp only: funpow.simps o_apply fov_updateCameraZoom) simp
qed

text \<open>
  C5. The first \<^verbatim>\<open>zoom(+1000)\<close> of a new camera leaves the field of view at \<open>-955\<close>,
  the second at \<open>1\<close>, the third at \<open>-999\<close>: the value leaves the range \<open>[1, 45]\<close> and does
  not settle at \<open>1\<close>, it is below \<open>1\<close> after every odd number of calls. In the other
  direction the first \<^verbatim>\<open>zoom(-1000)\<close> gives \<open>1045\<close>.
\<close>

theorem zoom_leaves_range:
  "m_fov (updateCameraZoom 1000 Camera_new) = - 955
   \<and> m_fov (updateCameraZoom 1000 (updateCameraZoom 1000 Camera_new)) = 1
   \<and> m_fov (updateCameraZoom 1000 (updateCameraZoom 1000 (updateCameraZoom 1000 Camera_new))) = - 999
   \<and> m_fov (updateCameraZoom (- 1000) Camera_new) = 1045
   \<and> (\<forall>n. m_fov ((updateCameraZoom 1000 ^^ (2 * n + 1)) Camera_new) < 1)"
proof -
  have "m_fov (updateCameraZoom 1000 Camera_new) = - 955
   \<and> m_fov (updateCameraZoom 1000 (updateCameraZoom 1000 Camera_new)) = 1
   \<and> m_fov (updateCameraZoom 1000 (updateCameraZoom 1000 (updateCameraZoom 1000 Camera_new))) = - 999
   \<and> m_fov (updateCameraZoom (- 1000) Camera_new) = 1045"
    by (simp add: fov_updateCameraZoom Camera_new_def)
  moreover have "\<forall>n. m_fov ((updateCameraZoom 1000 ^^ (2 * n + 1)) Camera_new) < 1"
    using zoom_1000_alternates by blast
  ultimately show ?thesis
    by blast
qed

section \<open>The mesh parser\<close>

lemma of_char_digit: "(d::nat) < 10 \<Longrightarrow> (of_char (char_of (48 + d) :: char) :: nat) = 48 + d"
  by simp

lemma isdigit_digit: "(d::nat) < 10 \<Longrightarrow> isdigit (char_of (48 + d))"
  by (simp add: isdigit_def)

lemma showNat_digits: "list_all isdigit (showNat n)"
proof (induction n rule: showNat.induct)
  case (1 n)
  show ?case
  proof (cases "n < 10")
    case True
    then show ?thesis
      by (subst showNat.simps) (simp add: isdigit_digit)
  next
    case False
    with 1 show ?thesis
      by (subst showNat.simps) (simp add: isdigit_digit)
  qed
qed

lemma showNat_nonempty: "showNat n \<noteq> []"
  by (subst showNat.simps) simp

lemma digitsVal_snoc: "digitsVal (ds @ [c]) = 10 * digitsVal ds + (of_char c - 48)"
  by (simp add: digitsVal_def)

lemma digitsVal_showNat: "digitsVal (showNat n) = n"
proof (induction n rule: showNat.induct)
  case (1 n)
  show ?case
  proof (cases "n < 10")
    case True
    then show ?thesis
      by (subst showNat.simps) (simp add: digitsVal_def)
  next
    case False
    with 1 have "digitsVal (showNat (n div 10)) = n div 10"
      by simp
    with False show ?thesis
      by (subst showNat.simps) (simp add: digitsVal_snoc)
  qed
qed

lemma not_isspace_digit: "isdigit c \<Longrightarrow> \<not> isspace c"
  by (auto simp: isdigit_def isspace_def)

lemma not_sign_digit: "isdigit c \<Longrightarrow> c \<noteq> CHR ''-'' \<and> c \<noteq> CHR ''+''"
  by (auto simp: isdigit_def)

lemma isspace_space: "isspace CHR '' ''" and not_isdigit_space: "\<not> isdigit CHR '' ''"
  by (simp_all add: isspace_def isdigit_def)

lemma takeWhile_digits:
  assumes "list_all isdigit ds" "blankStart r"
  shows "takeWhile isdigit (ds @ r) = ds" and "dropWhile isdigit (ds @ r) = r"
proof -
  have all: "\<forall>x\<in>set ds. isdigit x"
    using assms(1) by (simp add: list_all_iff)
  have r: "takeWhile isdigit r = []" "dropWhile isdigit r = r"
    using assms(2) by (cases r; simp add: blankStart_def not_isdigit_space)+
  show "takeWhile isdigit (ds @ r) = ds"
    using all r by simp
  show "dropWhile isdigit (ds @ r) = r"
    using all r by simp
qed

lemma readUInt_numeral:
  assumes "n < 2 ^ 32" "blankStart r"
  shows "readUInt (CHR '' '' # showNat n @ r) = Some (word_of_nat n, r)"
proof -
  obtain d ds where sn: "showNat n = d # ds"
    using showNat_nonempty[of n] by (cases "showNat n") auto
  have dig: "list_all isdigit (d # ds)"
    using showNat_digits[of n] by (simp add: sn)
  then have d: "isdigit d" by simp
  have s1: "dropWhile isspace (CHR '' '' # showNat n @ r) = d # ds @ r"
    using d by (simp add: sn isspace_space not_isspace_digit)
  have tk: "takeWhile isdigit (d # ds @ r) = d # ds" "dropWhile isdigit (d # ds @ r) = r"
    using takeWhile_digits[OF dig assms(2)] by simp_all
  have val: "digitsVal (d # ds) = n"
    using digitsVal_showNat[of n] by (simp add: sn)
  have le: "\<not> 4294967295 < n"
    using assms(1) by simp
  show ?thesis
    unfolding readUInt_def s1 Let_def
    using not_sign_digit[OF d] tk val le by simp
qed

lemma blankStart_numerals: "blankStart (numerals ns)"
  by (cases ns) (simp_all add: blankStart_def)

lemma readUInt_end: "readUInt [] = None"
  by (simp add: readUInt_def digitsVal_def)

lemma readIndices_numerals:
  assumes "list_all (\<lambda>n. n < 2 ^ 32) ns"
  shows "readIndices (numerals ns) = map (\<lambda>n. word_of_nat n - 1) ns"
  using assms
proof (induction ns)
  case Nil
  then show ?case
    by (subst readIndices.simps) (simp add: readUInt_end)
next
  case (Cons n ns)
  then have n: "n < 2 ^ 32" and ns: "list_all (\<lambda>n. n < 2 ^ 32) ns"
    by simp_all
  have "readUInt (CHR '' '' # showNat n @ numerals ns)
        = Some (word_of_nat n, numerals ns)"
    by (rule readUInt_numeral[OF n blankStart_numerals])
  then show ?case
    using Cons.IH[OF ns] by (subst readIndices.simps) simp
qed

lemma readWord_faceLine:
  "readWord (faceLine ns) = (''f'', numerals ns)"
proof -
  have "blankStart (numerals ns)"
    by (rule blankStart_numerals)
  then show ?thesis
    by (cases ns) (simp_all add: readWord_def faceLine_def isspace_def)
qed

lemma parseLine_faceLine:
  assumes "list_all (\<lambda>n. n < 2 ^ 32) ns"
  shows "parseLine rdp (faceLine ns) obj =
           obj\<lparr>m_indices := m_indices obj @ faceIndices (map (\<lambda>n. word_of_nat n - 1) ns)\<rparr>"
proof -
  have "faceLine ns \<noteq> []" "hd (faceLine ns) \<noteq> CHR ''#''"
    by (simp_all add: faceLine_def)
  then show ?thesis
    by (simp add: parseLine_def readWord_faceLine readIndices_numerals[OF assms])
qed

lemma unat_zeroBased:
  assumes "1 \<le> n" "n < 2 ^ 32"
  shows "unat (word_of_nat n - 1 :: u32) = n - 1"
proof -
  have "(word_of_nat n - 1 :: u32) = word_of_nat (n - 1)"
    using assms(1) by simp
  moreover have "unat (word_of_nat (n - 1) :: u32) = n - 1"
    using assms(2) by (simp add: unat_of_nat)
  ultimately show ?thesis by simp
qed

lemma unat_decrement:
  assumes "n < 2 ^ 32"
  shows "unat (word_of_nat n - 1 :: u32) = (if n = 0 then 4294967295 else n - 1)"
proof (cases "n = 0")
  case True
  have "unat (- 1 :: u32) = 4294967295"
    by (simp add: unsigned_minus_1_eq_mask mask_eq_exp_minus_1)
  with True show ?thesis by simp
next
  case False
  then show ?thesis
    using unat_zeroBased[of n] assms by simp
qed

lemma parseLine_vertices:
  "m_vertices (parseLine rdp line obj) =
     m_vertices obj @ (if isVertexLine line then [newVertex (rdp (snd (readWord line)))] else [])"
  by (auto simp: parseLine_def isVertexLine_def split: prod.splits)

lemma parseLine_indices:
  "m_indices (parseLine rdp line obj) =
     m_indices obj @
     (if isFaceLine line then faceIndices (readIndices (snd (readWord line))) else [])"
  by (auto simp: parseLine_def isFaceLine_def split: prod.splits)

lemma parseLines_vertices:
  "m_vertices (parseLines rdp ls obj) =
     m_vertices obj @
     concat (map (\<lambda>line. if isVertexLine line then [newVertex (rdp (snd (readWord line)))] else []) ls)"
  unfolding parseLines_def
  by (induction ls arbitrary: obj) (simp_all add: parseLine_vertices)

lemma parseLines_indices:
  "m_indices (parseLines rdp ls obj) =
     m_indices obj @
     concat (map (\<lambda>line. if isFaceLine line then faceIndices (readIndices (snd (readWord line))) else []) ls)"
  unfolding parseLines_def
  by (induction ls arbitrary: obj) (simp_all add: parseLine_indices)

lemma faceIndices_empty_iff: "faceIndices is = [] \<longleftrightarrow> \<not> (length is = 3 \<or> length is = 4)"
  by (simp add: faceIndices_def)

lemma length_faceIndices_eq:
  "length (faceIndices is) = (if length is = 3 then 3 else if length is = 4 then 6 else 0)"
  by (simp add: faceIndices_def)

lemma length_faceIndices: "3 dvd length (faceIndices is)"
  by (simp add: length_faceIndices_eq)

lemma parseLines_vertices_empty:
  "m_vertices (parseLines rdp ls obj) = [] \<longleftrightarrow> m_vertices obj = [] \<and> \<not> list_ex isVertexLine ls"
proof -
  have "concat (map (\<lambda>line. if isVertexLine line then [newVertex (rdp (snd (readWord line)))] else []) ls) = []
        \<longleftrightarrow> \<not> list_ex isVertexLine ls"
    by (induction ls) simp_all
  then show ?thesis
    unfolding parseLines_vertices append_is_Nil_conv by (rule arg_cong)
qed

lemma parseLines_indices_empty:
  "m_indices (parseLines rdp ls obj) = [] \<longleftrightarrow> m_indices obj = [] \<and> \<not> list_ex isValidFaceLine ls"
proof -
  have "concat (map (\<lambda>line. if isFaceLine line then faceIndices (readIndices (snd (readWord line))) else []) ls) = []
        \<longleftrightarrow> \<not> list_ex isValidFaceLine ls"
    by (induction ls) (simp_all add: isValidFaceLine_def indexCount_def faceIndices_empty_iff)
  then show ?thesis
    unfolding parseLines_indices append_is_Nil_conv by (rule arg_cong)
qed

lemma parseLines_indices_triples:
  "3 dvd length (m_indices obj) \<Longrightarrow> 3 dvd length (m_indices (parseLines rdp ls obj))"
  unfolding parseLines_def
  by (induction ls arbitrary: obj) (simp_all add: parseLine_indices length_faceIndices)

lemma m_vertices_Object_new: "m_vertices Object_new = []"
  and m_indices_Object_new: "m_indices Object_new = []"
  by (simp_all add: Object_new_def)

lemma parseLines_indices_triples_new: "3 dvd length (m_indices (parseLines rdp ls Object_new))"
  by (rule parseLines_indices_triples) (simp add: m_indices_Object_new)

text \<open>\<^verbatim>\<open>calculateUV_XY\<close> changes the texture coordinates only.\<close>

lemma calculateUV_XY_indices: "m_indices (calculateUV_XY obj) = m_indices obj"
  by (simp add: calculateUV_XY_def Let_def split: prod.splits)

lemma calculateUV_XY_length: "length (m_vertices (calculateUV_XY obj)) = length (m_vertices obj)"
  by (simp add: calculateUV_XY_def Let_def split: prod.splits)

lemma calculateUV_XY_positions:
  "map position (m_vertices (calculateUV_XY obj)) = map position (m_vertices obj)"
  by (auto simp: calculateUV_XY_def Let_def split: prod.splits)

lemma calculateUV_XY_in_bounds:
  "computeNormals_in_bounds (calculateUV_XY obj) = computeNormals_in_bounds obj"
  by (simp add: computeNormals_in_bounds_def calculateUV_XY_indices calculateUV_XY_length)

text \<open>
  \<^verbatim>\<open>computeNormals\<close> has a defined behaviour exactly when the indices come in threes and
  every one of them is below the number of vertices. It changes the normals only.
\<close>

lemma length_addNormal: "length (addNormal idx f vs) = length vs"
  by (simp add: addNormal_def split: prod.splits)

lemma positions_addNormal: "map position (addNormal idx f vs) = map position vs"
proof (rule nth_equalityI)
  show "length (map position (addNormal idx f vs)) = length (map position vs)"
    by (simp add: length_addNormal)
  fix i
  assume "i < length (map position (addNormal idx f vs))"
  then have i: "i < length vs"
    by (simp add: length_addNormal)
  show "map position (addNormal idx f vs) ! i = map position vs ! i"
  proof (cases "unat idx = i")
    case True
    with i show ?thesis
      by (simp add: addNormal_def length_addNormal split: prod.splits)
  next
    case False
    with i show ?thesis
      by (simp add: addNormal_def split: prod.splits)
  qed
qed

lemma triples_induct:
  assumes "P []" "\<And>a. P [a]" "\<And>a b. P [a, b]"
    and "\<And>a b c rest. P rest \<Longrightarrow> P (a # b # c # rest)"
  shows "P xs"
proof (induction "length xs" arbitrary: xs rule: less_induct)
  case less
  show ?case
  proof (cases xs)
    case Nil
    then show ?thesis by (simp add: assms(1))
  next
    case (Cons a as)
    note c1 = this
    show ?thesis
    proof (cases as)
      case Nil
      then show ?thesis by (simp add: c1 assms(2))
    next
      case (Cons b bs)
      note c2 = this
      show ?thesis
      proof (cases bs)
        case Nil
        then show ?thesis by (simp add: c1 c2 assms(3))
      next
        case (Cons c rest)
        have "P rest"
          by (rule less) (simp add: c1 c2 Cons)
        then show ?thesis
          unfolding c1 c2 Cons by (rule assms(4))
      qed
    qed
  qed
qed

lemma accumulateNormals_step:
  "accumulateNormals (i0 # i1 # i2 # rest) vs =
     (if unat i0 < length vs \<and> unat i1 < length vs \<and> unat i2 < length vs then
        accumulateNormals rest
          (let faceNormal =
                 normalizeVec
                   (crossProdVec
                      (fst (position (vs ! unat i1)) - fst (position (vs ! unat i0)),
                       fst (snd (position (vs ! unat i1))) - fst (snd (position (vs ! unat i0))),
                       snd (snd (position (vs ! unat i1))) - snd (snd (position (vs ! unat i0))))
                      (fst (position (vs ! unat i2)) - fst (position (vs ! unat i0)),
                       fst (snd (position (vs ! unat i2))) - fst (snd (position (vs ! unat i0))),
                       snd (snd (position (vs ! unat i2))) - snd (snd (position (vs ! unat i0)))))
           in addNormal i2 faceNormal (addNormal i1 faceNormal (addNormal i0 faceNormal vs)))
      else Undefined)"
  by (simp add: Let_def split: prod.splits)

lemma dvd_3_Suc3: "(3 dvd Suc (Suc (Suc n))) = (3 dvd n)"
  and not_dvd_3_Suc: "\<not> 3 dvd Suc 0" "\<not> 3 dvd Suc (Suc 0)"
  by presburger+

lemma accumulateNormals_Undefined_iff:
  "(accumulateNormals is vs = Undefined) =
     (\<not> (3 dvd length is \<and> list_all (\<lambda>i. unat i < length vs) is))"
proof (induction "is" arbitrary: vs rule: triples_induct)
  case (4 a b c rest)
  show ?case
    unfolding accumulateNormals_step
    by (auto simp: 4 Let_def length_addNormal dvd_3_Suc3)
qed (simp_all add: not_dvd_3_Suc)

lemma accumulateNormals_Returns:
  "accumulateNormals is vs = Returns vs' \<Longrightarrow>
     length vs' = length vs \<and> map position vs' = map position vs"
proof (induction "is" arbitrary: vs rule: triples_induct)
  case (4 a b c rest)
  from 4(2) show ?case
    unfolding accumulateNormals_step
    by (auto simp: Let_def length_addNormal positions_addNormal dest!: 4(1) split: if_splits)
qed simp_all

text \<open>Every normal that \<^verbatim>\<open>computeNormals\<close> stores is made of three numbers.\<close>

lemma finiteVec_normalizeVecWith: "finiteVec (normalizeVecWith rnd v)"
  by (cases v) (simp add: normalizeVecWith_cases finiteVec_def)

lemma finiteVec_normalizeVec: "finiteVec (normalizeVec v)"
  by (simp add: normalizeVec_def finiteVec_normalizeVecWith)

lemma finiteVec_normalizeNormal:
  assumes "finiteVec n"
  shows "finiteVec (normalizeNormal n)"
proof -
  from assms obtain x y z where "n = (Some x, Some y, Some z)"
    by (auto simp: finiteVec_def split: prod.splits option.splits)
  then show ?thesis
    by (simp add: normalizeNormal_def finiteVec_normalizeVec)
qed

lemma list_all_update: "list_all P xs \<Longrightarrow> P w \<Longrightarrow> list_all P (xs[i := w])"
  using set_update_subset_insert[of xs i w] by (auto simp: list_all_iff)

lemma finiteVec_addNormal:
  assumes "list_all (\<lambda>v. finiteVec (normal v)) vs" "finiteVec f"
  shows "list_all (\<lambda>v. finiteVec (normal v)) (addNormal idx f vs)"
proof (cases "unat idx < length vs")
  case True
  define w where "w = (case normal (vs ! unat idx) of (n0, n1, n2) \<Rightarrow>
      case f of (f0, f1, f2) \<Rightarrow>
        (vs ! unat idx)\<lparr>normal := (fadd n0 f0, fadd n1 f1, fadd n2 f2)\<rparr>)"
  from True assms(1) have "finiteVec (normal (vs ! unat idx))"
    by (simp add: list_all_length)
  with assms(2) have "finiteVec (normal w)"
    by (auto simp: w_def finiteVec_def fadd_def split: prod.splits option.splits)
  moreover have "addNormal idx f vs = vs[unat idx := w]"
    by (simp add: addNormal_def w_def split: prod.splits)
  ultimately show ?thesis
    using assms(1) by (simp add: list_all_update)
next
  case False
  then show ?thesis
    using assms(1) by (auto simp: addNormal_def list_update_beyond split: prod.splits)
qed

lemma accumulateNormals_finite:
  "accumulateNormals is vs = Returns vs' \<Longrightarrow> list_all (\<lambda>v. finiteVec (normal v)) vs \<Longrightarrow>
     list_all (\<lambda>v. finiteVec (normal v)) vs'"
proof (induction "is" arbitrary: vs rule: triples_induct)
  case (4 a b c rest)
  from 4(2) show ?case
    unfolding accumulateNormals_step
    by (auto simp: Let_def intro!: 4(1) 4(3) finiteVec_addNormal finiteVec_normalizeVec
        split: if_splits)
qed simp_all

lemma computeNormals_finite:
  assumes "computeNormals obj = Returns obj'"
  shows "list_all (\<lambda>v. finiteVec (normal v)) (m_vertices obj')"
proof -
  from assms obtain vs where
    a: "accumulateNormals (m_indices obj)
          (map (\<lambda>v. v\<lparr>normal := (Some 0, Some 0, Some 0)\<rparr>) (m_vertices obj)) = Returns vs"
    and o: "obj' = obj\<lparr>m_vertices := map (\<lambda>v. v\<lparr>normal := normalizeNormal (normal v)\<rparr>) vs\<rparr>"
    by (auto simp: computeNormals_def Let_def split: outcome.splits)
  have "list_all (\<lambda>v. finiteVec (normal v))
          (map (\<lambda>v. v\<lparr>normal := (Some 0, Some 0, Some 0)\<rparr>) (m_vertices obj))"
    by (simp add: list_all_iff finiteVec_def)
  then have "list_all (\<lambda>v. finiteVec (normal v)) vs"
    by (rule accumulateNormals_finite[OF a])
  then show ?thesis
    by (simp add: o list_all_iff finiteVec_normalizeNormal)
qed

lemma computeNormals_Undefined_iff:
  "(computeNormals obj = Undefined) =
     (\<not> (3 dvd length (m_indices obj) \<and> computeNormals_in_bounds obj))"
proof -
  have "(computeNormals obj = Undefined) =
          (accumulateNormals (m_indices obj)
             (map (\<lambda>v. v\<lparr>normal := (Some 0, Some 0, Some 0)\<rparr>) (m_vertices obj)) = Undefined)"
    by (simp add: computeNormals_def Let_def split: outcome.splits)
  then show ?thesis
    by (simp add: accumulateNormals_Undefined_iff computeNormals_in_bounds_def)
qed

lemma computeNormals_Returns:
  assumes "computeNormals obj = Returns obj'"
  shows "m_indices obj' = m_indices obj"
    and "length (m_vertices obj') = length (m_vertices obj)"
    and "map position (m_vertices obj') = map position (m_vertices obj)"
proof -
  from assms obtain vs where
    a: "accumulateNormals (m_indices obj)
          (map (\<lambda>v. v\<lparr>normal := (Some 0, Some 0, Some 0)\<rparr>) (m_vertices obj)) = Returns vs"
    and o: "obj' = obj\<lparr>m_vertices := map (\<lambda>v. v\<lparr>normal := normalizeNormal (normal v)\<rparr>) vs\<rparr>"
    by (auto simp: computeNormals_def Let_def split: outcome.splits)
  note r = accumulateNormals_Returns[OF a]
  show "m_indices obj' = m_indices obj"
    by (simp add: o)
  show "length (m_vertices obj') = length (m_vertices obj)"
    using r by (simp add: o)
  have "map position (m_vertices obj') = map position vs"
    by (simp add: o comp_def)
  also have "\<dots> = map position (m_vertices obj)"
    using r by (simp add: comp_def)
  finally show "map position (m_vertices obj') = map position (m_vertices obj)" .
qed

text \<open>The three outcomes of \<^verbatim>\<open>parseFile\<close> on a new object.\<close>

lemma parseFile_None: "parseFile rdp None obj = Returns (1, obj)"
  by (simp add: parseFile_def)

lemma parseFile_Some:
  "parseFile rdp (Some text) obj =
     (if m_vertices (parseLines rdp (getlines text) obj) = []
         \<or> m_indices (parseLines rdp (getlines text) obj) = []
      then Returns (1, parseLines rdp (getlines text) obj)
      else
        (case computeNormals (calculateUV_XY (parseLines rdp (getlines text) obj)) of
           Undefined \<Rightarrow> Undefined
         | Returns ob \<Rightarrow> Returns (0, ob)))"
  by (simp add: parseFile_def Let_def)

lemma computeNormals_parsed_Undefined_iff:
  "(computeNormals (calculateUV_XY (parseLines rdp ls Object_new)) = Undefined) =
     (\<not> computeNormals_in_bounds (parseLines rdp ls Object_new))"
  by (simp add: computeNormals_Undefined_iff calculateUV_XY_indices calculateUV_XY_in_bounds
      parseLines_indices_triples_new)

lemma parseFile_Undefined_iff:
  "(parseFile rdp (Some text) Object_new = Undefined) =
     (m_vertices (parseLines rdp (getlines text) Object_new) \<noteq> []
      \<and> m_indices (parseLines rdp (getlines text) Object_new) \<noteq> []
      \<and> \<not> computeNormals_in_bounds (parseLines rdp (getlines text) Object_new))"
  using computeNormals_parsed_Undefined_iff[of rdp "getlines text"]
  by (auto simp: parseFile_Some split: outcome.splits)

lemma parseFile_rejects_iff:
  "(\<exists>ob. parseFile rdp (Some text) Object_new = Returns (1, ob)) =
     (m_vertices (parseLines rdp (getlines text) Object_new) = []
      \<or> m_indices (parseLines rdp (getlines text) Object_new) = [])"
  by (auto simp: parseFile_Some split: outcome.splits)

lemma parseFile_accepts_iff:
  "(\<exists>ob. parseFile rdp (Some text) Object_new = Returns (0, ob)) =
     (m_vertices (parseLines rdp (getlines text) Object_new) \<noteq> []
      \<and> m_indices (parseLines rdp (getlines text) Object_new) \<noteq> []
      \<and> computeNormals_in_bounds (parseLines rdp (getlines text) Object_new))"
  using computeNormals_parsed_Undefined_iff[of rdp "getlines text"]
  by (auto simp: parseFile_Some split: outcome.splits)

lemma parseFile_accepted_mesh:
  assumes "parseFile rdp (Some text) Object_new = Returns (0, ob)"
  shows "m_indices ob = m_indices (parseLines rdp (getlines text) Object_new)"
    and "map position (m_vertices ob) =
           map position (m_vertices (parseLines rdp (getlines text) Object_new))"
proof -
  from assms have c: "computeNormals (calculateUV_XY (parseLines rdp (getlines text) Object_new))
      = Returns ob"
    by (auto simp: parseFile_Some split: outcome.splits if_splits)
  show "m_indices ob = m_indices (parseLines rdp (getlines text) Object_new)"
    using computeNormals_Returns(1)[OF c] by (simp add: calculateUV_XY_indices)
  show "map position (m_vertices ob) =
           map position (m_vertices (parseLines rdp (getlines text) Object_new))"
    using computeNormals_Returns(3)[OF c] by (simp add: calculateUV_XY_positions)
qed

lemma isFaceLine_faceLine: "isFaceLine (faceLine ns)" and not_isVertexLine_faceLine: "\<not> isVertexLine (faceLine ns)"
proof -
  have "faceLine ns \<noteq> []" "hd (faceLine ns) \<noteq> CHR ''#''"
    by (simp_all add: faceLine_def)
  then show "isFaceLine (faceLine ns)" "\<not> isVertexLine (faceLine ns)"
    by (simp_all add: isFaceLine_def isVertexLine_def readWord_faceLine)
qed

lemma unat_faceIndices:
  assumes "list_all (\<lambda>n. n < 2 ^ 32) ns"
  shows "map unat (faceIndices (map (\<lambda>n. word_of_nat n - 1 :: u32) ns)) =
           (let is = map (\<lambda>n. if n = 0 then 4294967295 else n - 1) ns in
            if length ns = 3 then [is ! 0, is ! 1, is ! 2]
            else if length ns = 4 then [is ! 0, is ! 1, is ! 2, is ! 0, is ! 2, is ! 3]
            else [])"
proof -
  have "\<And>k. k < length ns \<Longrightarrow>
          unat (word_of_nat (ns ! k) - 1 :: u32) = (if ns ! k = 0 then 4294967295 else ns ! k - 1)"
    using assms by (simp add: list_all_length unat_decrement)
  then show ?thesis
    by (simp add: faceIndices_def Let_def)
qed

text \<open>A file of two lines: a vertex line, then a face line of decimal numerals.\<close>

lemma parse_vertex_then_face:
  assumes "getlines text = [vl, faceLine ns]" "isVertexLine vl" "\<not> isFaceLine vl"
    and "list_all (\<lambda>n. n < 2 ^ 32) ns"
  shows "m_vertices (parseLines rdp (getlines text) Object_new) = [newVertex (rdp (snd (readWord vl)))]"
    and "m_indices (parseLines rdp (getlines text) Object_new) =
           faceIndices (map (\<lambda>n. word_of_nat n - 1) ns)"
proof -
  have i: "readIndices (snd (readWord (faceLine ns))) = map (\<lambda>n. word_of_nat n - 1) ns"
    by (simp add: readWord_faceLine readIndices_numerals[OF assms(4)])
  show "m_vertices (parseLines rdp (getlines text) Object_new) = [newVertex (rdp (snd (readWord vl)))]"
    using assms(2) by (simp add: assms(1) parseLines_vertices not_isVertexLine_faceLine Object_new_def)
  show "m_indices (parseLines rdp (getlines text) Object_new) =
           faceIndices (map (\<lambda>n. word_of_nat n - 1) ns)"
    using assms(3) by (simp add: assms(1) parseLines_indices isFaceLine_faceLine i Object_new_def)
qed

text \<open>
  C1. A face line written as \<^verbatim>\<open>f\<close> and decimal indices, each at least \<open>1\<close> and below
  \<open>2^32\<close>: three indices add one triangle in the order read, four indices \<open>i0 i1 i2 i3\<close>
  add the two triangles \<open>(i0, i1, i2)\<close> and \<open>(i0, i2, i3)\<close>, any other number adds nothing.
  Every stored index is the index read minus one. The vertices are left as they are. For
  any line at all, what is added to the index list is decided by the number of indices read
  on it in the same way, and only a face line adds anything.
\<close>

theorem face_line_by_index_count:
  assumes "list_all (\<lambda>n. 1 \<le> n \<and> n < 2 ^ 32) ns"
  shows "map unat (m_indices (parseLine rdp (faceLine ns) obj)) =
           map unat (m_indices obj) @
           (if length ns = 3 then [ns ! 0 - 1, ns ! 1 - 1, ns ! 2 - 1]
            else if length ns = 4 then
              [ns ! 0 - 1, ns ! 1 - 1, ns ! 2 - 1,
               ns ! 0 - 1, ns ! 2 - 1, ns ! 3 - 1]
            else [])
         \<and> m_vertices (parseLine rdp (faceLine ns) obj) = m_vertices obj
         \<and> m_indices (parseLine rdp line obj) =
             m_indices obj @
             (if isFaceLine line then
                (let is = readIndices (snd (readWord line)) in
                 if length is = 3 then [is ! 0, is ! 1, is ! 2]
                 else if length is = 4 then
                   [is ! 0, is ! 1, is ! 2,
                    is ! 0, is ! 2, is ! 3]
                 else [])
              else [])"
proof -
  have lt: "list_all (\<lambda>n. n < 2 ^ 32) ns"
    using assms by (simp add: list_all_iff)
  have u: "\<And>k. k < length ns \<Longrightarrow> unat (word_of_nat (ns ! k) - 1 :: u32) = ns ! k - 1"
    using assms by (simp add: list_all_length unat_zeroBased)
  have "parseLine rdp (faceLine ns) obj =
          obj\<lparr>m_indices := m_indices obj @ faceIndices (map (\<lambda>n. word_of_nat n - 1) ns)\<rparr>"
    by (rule parseLine_faceLine[OF lt])
  then have "map unat (m_indices (parseLine rdp (faceLine ns) obj)) =
           map unat (m_indices obj) @
           (if length ns = 3 then [ns ! 0 - 1, ns ! 1 - 1, ns ! 2 - 1]
            else if length ns = 4 then
              [ns ! 0 - 1, ns ! 1 - 1, ns ! 2 - 1,
               ns ! 0 - 1, ns ! 2 - 1, ns ! 3 - 1]
            else [])
         \<and> m_vertices (parseLine rdp (faceLine ns) obj) = m_vertices obj"
    by (simp add: faceIndices_def u)
  then show ?thesis
    by (simp add: parseLine_indices faceIndices_def Let_def)
qed

text \<open>The line \<^verbatim>\<open>f 1 2 3 4\<close>, a triangle, and two lines that are dropped.\<close>

theorem face_line_by_index_count_witness:
  "list_all (\<lambda>n. 1 \<le> n \<and> n < 2 ^ 32) [1, 2, 3, 4 :: nat]
   \<and> map unat (m_indices (parseLine decimalPosition ''f 1 2 3 4'' Object_new)) = [0, 1, 2, 0, 2, 3]
   \<and> map unat (m_indices (parseLine decimalPosition ''f 7 8 9'' Object_new)) = [6, 7, 8]
   \<and> map unat (m_indices (parseLine decimalPosition ''f 1 2 3 4 5'' Object_new)) = []
   \<and> map unat (m_indices (parseLine decimalPosition ''f 1 2'' Object_new)) = []"
proof -
  have l: "faceLine [1, 2, 3, 4] = ''f 1 2 3 4''" "faceLine [7, 8, 9] = ''f 7 8 9''"
    "faceLine [1, 2, 3, 4, 5] = ''f 1 2 3 4 5''" "faceLine [1, 2] = ''f 1 2''"
    by code_simp+
  have h: "list_all (\<lambda>n. 1 \<le> n \<and> n < 2 ^ 32) [1, 2, 3, 4 :: nat]"
    "list_all (\<lambda>n. 1 \<le> n \<and> n < 2 ^ 32) [7, 8, 9 :: nat]"
    "list_all (\<lambda>n. 1 \<le> n \<and> n < 2 ^ 32) [1, 2, 3, 4, 5 :: nat]"
    "list_all (\<lambda>n. 1 \<le> n \<and> n < 2 ^ 32) [1, 2 :: nat]"
    by simp_all
  have e: "m_indices Object_new = []"
    by (simp add: Object_new_def)
  show ?thesis
    using face_line_by_index_count[OF h(1), of decimalPosition Object_new, THEN conjunct1]
      face_line_by_index_count[OF h(2), of decimalPosition Object_new, THEN conjunct1]
      face_line_by_index_count[OF h(3), of decimalPosition Object_new, THEN conjunct1]
      face_line_by_index_count[OF h(4), of decimalPosition Object_new, THEN conjunct1]
    unfolding l by (simp add: e)
qed

text \<open>
  C10. The indices of a face line are read as \<^verbatim>\<open>unsigned int\<close> and one is subtracted from
  each as it is read: the index \<open>0\<close> is stored as \<open>2^32 - 1\<close>. The line is then treated as
  any other face line, by the number of its indices alone.
\<close>

theorem index_zero_wraps:
  assumes "list_all (\<lambda>n. n < 2 ^ 32) ns"
  shows "map unat (readIndices (numerals ns)) =
           map (\<lambda>n. if n = 0 then 4294967295 else n - 1) ns
         \<and> parseLine rdp (faceLine ns) obj =
             obj\<lparr>m_indices := m_indices obj @ faceIndices (readIndices (numerals ns))\<rparr>"
proof -
  have "map unat (map (\<lambda>n. word_of_nat n - 1 :: u32) ns) =
          map (\<lambda>n. if n = 0 then 4294967295 else n - 1) ns"
    using assms by (simp add: list_all_iff unat_decrement)
  then show ?thesis
    using parseLine_faceLine[OF assms, of rdp obj] readIndices_numerals[OF assms] by simp
qed

theorem index_zero_wraps_witness:
  "list_all (\<lambda>n. n < 2 ^ 32) [0, 1, 2 :: nat]
   \<and> map unat (readIndices '' 0 1 2'') = [4294967295, 0, 1]
   \<and> map unat (m_indices (parseLine decimalPosition ''f 0 1 2'' Object_new)) = [4294967295, 0, 1]"
proof -
  have l: "faceLine [0, 1, 2] = ''f 0 1 2''" "numerals [0, 1, 2] = '' 0 1 2''"
    by code_simp+
  have h: "list_all (\<lambda>n. n < 2 ^ 32) [0, 1, 2 :: nat]"
    by simp
  note t = index_zero_wraps[OF h, of decimalPosition Object_new, unfolded l]
  have r: "map unat (readIndices '' 0 1 2'') = [4294967295, 0, 1]"
    using t by simp
  have w: "readIndices '' 0 1 2'' = [- 1, 0, 1]"
    using readIndices_numerals[OF h] unfolding l by simp
  have "m_indices (parseLine decimalPosition ''f 0 1 2'' Object_new) = faceIndices (readIndices '' 0 1 2'')"
    using t by (simp add: Object_new_def)
  also have "\<dots> = readIndices '' 0 1 2''"
    unfolding w by (simp add: faceIndices_def)
  finally show ?thesis
    using h r by simp
qed

text \<open>
  C2. A mesh of one vertex and the face \<^verbatim>\<open>f 1 2 3\<close>. After the loop the lists hold one
  vertex and the indices \<open>0, 1, 2\<close>, so two indices are not below the number of vertices.
  No list is empty, so \<^verbatim>\<open>parseFile\<close> does not return \<open>1\<close>: it runs \<^verbatim>\<open>computeNormals\<close>, which
  subscripts \<^verbatim>\<open>m_vertices\<close> outside the vector. The length of the index list is a multiple of
  three for every text.
\<close>

theorem parse_accepts_index_out_of_range:
  "parseFile decimalPosition (Some ''v 0 0 0\<newline>f 1 2 3\<newline>'') Object_new = Undefined
   \<and> length (m_vertices (parseLines decimalPosition (getlines ''v 0 0 0\<newline>f 1 2 3\<newline>'') Object_new)) = 1
   \<and> map unat (m_indices (parseLines decimalPosition (getlines ''v 0 0 0\<newline>f 1 2 3\<newline>'') Object_new))
       = [0, 1, 2]
   \<and> computeNormals_in_bounds (parseLines decimalPosition (getlines ''v 0 0 0\<newline>f 1 2 3\<newline>'') Object_new)
       = False
   \<and> computeNormals (calculateUV_XY
        (parseLines decimalPosition (getlines ''v 0 0 0\<newline>f 1 2 3\<newline>'') Object_new)) = Undefined
   \<and> 3 dvd length (m_indices (parseLines rdp ls Object_new))"
proof -
  have g: "getlines ''v 0 0 0\<newline>f 1 2 3\<newline>'' = [''v 0 0 0'', faceLine [1, 2, 3]]"
    by code_simp
  have v: "isVertexLine ''v 0 0 0''" "\<not> isFaceLine ''v 0 0 0''"
    by code_simp+
  have h: "list_all (\<lambda>n. n < 2 ^ 32) [1, 2, 3 :: nat]"
    by simp
  note p = parse_vertex_then_face[OF g v h, of decimalPosition]
  have l: "length (m_vertices (parseLines decimalPosition (getlines ''v 0 0 0\<newline>f 1 2 3\<newline>'') Object_new)) = 1"
    by (simp add: p(1))
  have i: "map unat (m_indices (parseLines decimalPosition (getlines ''v 0 0 0\<newline>f 1 2 3\<newline>'') Object_new))
            = [0, 1, 2]"
    unfolding p(2) unat_faceIndices[OF h] by simp
  have n: "m_indices (parseLines decimalPosition (getlines ''v 0 0 0\<newline>f 1 2 3\<newline>'') Object_new) \<noteq> []"
    "m_vertices (parseLines decimalPosition (getlines ''v 0 0 0\<newline>f 1 2 3\<newline>'') Object_new) \<noteq> []"
    using i l by auto
  have b: "\<not> list_all (\<lambda>k. k < 1) [0, 1, 2 :: nat]"
    by simp
  have "computeNormals_in_bounds (parseLines decimalPosition (getlines ''v 0 0 0\<newline>f 1 2 3\<newline>'') Object_new)
          = list_all (\<lambda>k. k < 1) [0, 1, 2 :: nat]"
    unfolding computeNormals_in_bounds_def i[symmetric] by (simp add: p(1) list_all_iff)
  with b have o: "computeNormals_in_bounds
      (parseLines decimalPosition (getlines ''v 0 0 0\<newline>f 1 2 3\<newline>'') Object_new) = False"
    by simp
  have u: "parseFile decimalPosition (Some ''v 0 0 0\<newline>f 1 2 3\<newline>'') Object_new = Undefined"
    unfolding parseFile_Undefined_iff using n o by simp
  have c: "computeNormals (calculateUV_XY
        (parseLines decimalPosition (getlines ''v 0 0 0\<newline>f 1 2 3\<newline>'') Object_new)) = Undefined"
    unfolding computeNormals_parsed_Undefined_iff using o by simp
  show ?thesis
    using u l i o c parseLines_indices_triples_new[of rdp ls] by simp
qed

lemma isValidFaceLine_faceLine:
  assumes "list_all (\<lambda>n. n < 2 ^ 32) ns"
  shows "isValidFaceLine (faceLine ns) \<longleftrightarrow> length ns = 3 \<or> length ns = 4"
  by (simp add: isValidFaceLine_def isFaceLine_faceLine indexCount_def readWord_faceLine
      readIndices_numerals[OF assms])

lemma not_isValidFaceLine: "\<not> isFaceLine line \<Longrightarrow> \<not> isValidFaceLine line"
  by (simp add: isValidFaceLine_def)

text \<open>The three outcomes of \<^verbatim>\<open>create\<close>.\<close>

lemma create_unreadable: "create rdp rdf None mtlFile = Returns None"
  by (simp add: create_def parseFile_None)

lemma create_None_iff:
  "(create rdp rdf (Some text) mtlFile = Returns None) =
     (m_vertices (parseLines rdp (getlines text) Object_new) = []
      \<or> m_indices (parseLines rdp (getlines text) Object_new) = [])"
  by (auto simp: create_def Let_def parseFile_Some split: outcome.splits)

lemma create_Undefined_iff:
  "(create rdp rdf (Some text) mtlFile = Undefined) =
     (m_vertices (parseLines rdp (getlines text) Object_new) \<noteq> []
      \<and> m_indices (parseLines rdp (getlines text) Object_new) \<noteq> []
      \<and> \<not> computeNormals_in_bounds (parseLines rdp (getlines text) Object_new))"
proof -
  have "(create rdp rdf (Some text) mtlFile = Undefined) =
          (parseFile rdp (Some text) Object_new = Undefined)"
    by (auto simp: create_def Let_def split: outcome.splits)
  then show ?thesis
    by (simp add: parseFile_Undefined_iff)
qed

lemma create_Some_iff:
  "(\<exists>ob. create rdp rdf (Some text) mtlFile = Returns (Some ob)) =
     (m_vertices (parseLines rdp (getlines text) Object_new) \<noteq> []
      \<and> m_indices (parseLines rdp (getlines text) Object_new) \<noteq> []
      \<and> computeNormals_in_bounds (parseLines rdp (getlines text) Object_new))"
proof (cases "create rdp rdf (Some text) mtlFile")
  case Undefined
  then show ?thesis
    using create_Undefined_iff[of rdp rdf "text" mtlFile] by auto
next
  case (Returns r)
  show ?thesis
  proof (cases r)
    case None
    then show ?thesis
      using Returns create_None_iff[of rdp rdf "text" mtlFile] by auto
  next
    case (Some ob)
    then show ?thesis
      using Returns create_None_iff[of rdp rdf "text" mtlFile]
        create_Undefined_iff[of rdp rdf "text" mtlFile] by auto
  qed
qed

lemma parsed_empty_iff:
  "(m_vertices (parseLines rdp ls Object_new) = []) = (\<not> list_ex isVertexLine ls)"
  "(m_indices (parseLines rdp ls Object_new) = []) = (\<not> list_ex isValidFaceLine ls)"
  by (simp_all add: parseLines_vertices_empty parseLines_indices_empty
      m_vertices_Object_new m_indices_Object_new)

text \<open>The mesh of one vertex and the face \<^verbatim>\<open>f 0 1 2\<close>, and a triangle.\<close>

lemma parse_face_0_1_2:
  "length (m_vertices (parseLines decimalPosition (getlines ''v 0 0 0\<newline>f 0 1 2\<newline>'') Object_new)) = 1"
  "map unat (m_indices (parseLines decimalPosition (getlines ''v 0 0 0\<newline>f 0 1 2\<newline>'') Object_new))
     = [4294967295, 0, 1]"
  "list_ex isVertexLine (getlines ''v 0 0 0\<newline>f 0 1 2\<newline>'')"
  "list_ex isValidFaceLine (getlines ''v 0 0 0\<newline>f 0 1 2\<newline>'')"
  "\<not> computeNormals_in_bounds (parseLines decimalPosition (getlines ''v 0 0 0\<newline>f 0 1 2\<newline>'') Object_new)"
proof -
  have g: "getlines ''v 0 0 0\<newline>f 0 1 2\<newline>'' = [''v 0 0 0'', faceLine [0, 1, 2]]"
    by code_simp
  have v: "isVertexLine ''v 0 0 0''" "\<not> isFaceLine ''v 0 0 0''"
    by code_simp+
  have h: "list_all (\<lambda>n. n < 2 ^ 32) [0, 1, 2 :: nat]"
    by simp
  note p = parse_vertex_then_face[OF g v h, of decimalPosition]
  show l: "length (m_vertices (parseLines decimalPosition (getlines ''v 0 0 0\<newline>f 0 1 2\<newline>'') Object_new)) = 1"
    by (simp add: p(1))
  show i: "map unat (m_indices (parseLines decimalPosition (getlines ''v 0 0 0\<newline>f 0 1 2\<newline>'') Object_new))
            = [4294967295, 0, 1]"
    unfolding p(2) unat_faceIndices[OF h] by simp
  show "list_ex isVertexLine (getlines ''v 0 0 0\<newline>f 0 1 2\<newline>'')"
    unfolding g by (simp only: list_ex_Cons_iff v simp_thms)
  show "list_ex isValidFaceLine (getlines ''v 0 0 0\<newline>f 0 1 2\<newline>'')"
    unfolding g by (simp only: list_ex_Cons_iff isValidFaceLine_faceLine[OF h]) simp
  have b: "\<not> list_all (\<lambda>k. k < 1) [4294967295, 0, 1 :: nat]"
    by simp
  have "computeNormals_in_bounds (parseLines decimalPosition (getlines ''v 0 0 0\<newline>f 0 1 2\<newline>'') Object_new)
          = list_all (\<lambda>k. k < 1) [4294967295, 0, 1 :: nat]"
    unfolding computeNormals_in_bounds_def i[symmetric] by (simp add: p(1) list_all_iff)
  with b show "\<not> computeNormals_in_bounds
      (parseLines decimalPosition (getlines ''v 0 0 0\<newline>f 0 1 2\<newline>'') Object_new)"
    by simp
qed

lemma parse_triangle:
  "list_ex isVertexLine (getlines ''v 0 0 0\<newline>v 1 0 0\<newline>v 0 1 0\<newline>f 1 2 3\<newline>'')"
  "list_ex isValidFaceLine (getlines ''v 0 0 0\<newline>v 1 0 0\<newline>v 0 1 0\<newline>f 1 2 3\<newline>'')"
  "computeNormals_in_bounds
     (parseLines decimalPosition (getlines ''v 0 0 0\<newline>v 1 0 0\<newline>v 0 1 0\<newline>f 1 2 3\<newline>'') Object_new)"
proof -
  have g: "getlines ''v 0 0 0\<newline>v 1 0 0\<newline>v 0 1 0\<newline>f 1 2 3\<newline>'' =
       [''v 0 0 0'', ''v 1 0 0'', ''v 0 1 0'', faceLine [1, 2, 3]]"
    by code_simp
  have v: "isVertexLine ''v 0 0 0''" "isVertexLine ''v 1 0 0''" "isVertexLine ''v 0 1 0''"
    by code_simp+
  have nf: "\<not> isFaceLine ''v 0 0 0''" "\<not> isFaceLine ''v 1 0 0''" "\<not> isFaceLine ''v 0 1 0''"
    by code_simp+
  have h: "list_all (\<lambda>n. n < 2 ^ 32) [1, 2, 3 :: nat]"
    by simp
  have r: "readIndices (snd (readWord (faceLine [1, 2, 3]))) = map (\<lambda>n. word_of_nat n - 1) [1, 2, 3]"
    by (simp only: readWord_faceLine snd_conv readIndices_numerals[OF h])
  show "list_ex isVertexLine (getlines ''v 0 0 0\<newline>v 1 0 0\<newline>v 0 1 0\<newline>f 1 2 3\<newline>'')"
    unfolding g by (simp only: list_ex_Cons_iff v simp_thms)
  show "list_ex isValidFaceLine (getlines ''v 0 0 0\<newline>v 1 0 0\<newline>v 0 1 0\<newline>f 1 2 3\<newline>'')"
    unfolding g by (simp only: list_ex_Cons_iff isValidFaceLine_faceLine[OF h]) simp
  have l: "length (m_vertices (parseLines decimalPosition
      (getlines ''v 0 0 0\<newline>v 1 0 0\<newline>v 0 1 0\<newline>f 1 2 3\<newline>'') Object_new)) = 3"
    unfolding g parseLines_vertices
    by (simp add: v not_isVertexLine_faceLine m_vertices_Object_new)
  have m: "m_indices (parseLines decimalPosition
      (getlines ''v 0 0 0\<newline>v 1 0 0\<newline>v 0 1 0\<newline>f 1 2 3\<newline>'') Object_new) =
      faceIndices (map (\<lambda>n. word_of_nat n - 1) [1, 2, 3])"
    unfolding g parseLines_indices
    by (simp only: list.map concat.simps nf isFaceLine_faceLine r m_indices_Object_new
        if_True if_False append_Nil append_Nil2)
  have i: "map unat (m_indices (parseLines decimalPosition
      (getlines ''v 0 0 0\<newline>v 1 0 0\<newline>v 0 1 0\<newline>f 1 2 3\<newline>'') Object_new)) = [0, 1, 2]"
    unfolding m unat_faceIndices[OF h] by simp
  have b: "list_all (\<lambda>k. k < 3) [0, 1, 2 :: nat]"
    by simp
  have "computeNormals_in_bounds (parseLines decimalPosition
      (getlines ''v 0 0 0\<newline>v 1 0 0\<newline>v 0 1 0\<newline>f 1 2 3\<newline>'') Object_new)
          = list_all (\<lambda>k. k < 3) [0, 1, 2 :: nat]"
    unfolding computeNormals_in_bounds_def i[symmetric] by (simp add: l list_all_iff)
  with b show "computeNormals_in_bounds (parseLines decimalPosition
      (getlines ''v 0 0 0\<newline>v 1 0 0\<newline>v 0 1 0\<newline>f 1 2 3\<newline>'') Object_new)"
    by simp
qed

lemma only_vertices_or_faces:
  "\<not> list_ex isValidFaceLine (getlines ''v 0 0 0\<newline>v 1 0 0\<newline>v 0 1 0\<newline>'')"
  "\<not> list_ex isVertexLine (getlines ''f 1 2 3\<newline>'')"
  "\<not> list_ex isValidFaceLine (getlines ''v 0 0 0\<newline>f 1 2\<newline>'')"
proof -
  have g: "getlines ''v 0 0 0\<newline>v 1 0 0\<newline>v 0 1 0\<newline>'' = [''v 0 0 0'', ''v 1 0 0'', ''v 0 1 0'']"
    "getlines ''f 1 2 3\<newline>'' = [faceLine [1, 2, 3]]"
    "getlines ''v 0 0 0\<newline>f 1 2\<newline>'' = [''v 0 0 0'', faceLine [1, 2]]"
    by code_simp+
  have "\<not> isFaceLine ''v 0 0 0''" "\<not> isFaceLine ''v 1 0 0''" "\<not> isFaceLine ''v 0 1 0''"
    by code_simp+
  then have nf: "\<not> isValidFaceLine ''v 0 0 0''" "\<not> isValidFaceLine ''v 1 0 0''"
    "\<not> isValidFaceLine ''v 0 1 0''"
    by (simp_all add: not_isValidFaceLine)
  have f: "\<not> isValidFaceLine (faceLine [1, 2])"
    by (simp add: isValidFaceLine_faceLine)
  note nv = not_isVertexLine_faceLine
  show "\<not> list_ex isValidFaceLine (getlines ''v 0 0 0\<newline>v 1 0 0\<newline>v 0 1 0\<newline>'')"
    unfolding g by (simp only: list_ex_Nil_iff list_ex_Cons_iff nf simp_thms)
  show "\<not> list_ex isVertexLine (getlines ''f 1 2 3\<newline>'')"
    unfolding g by (simp only: list_ex_Nil_iff list_ex_Cons_iff nv simp_thms)
  show "\<not> list_ex isValidFaceLine (getlines ''v 0 0 0\<newline>f 1 2\<newline>'')"
    unfolding g by (simp only: list_ex_Nil_iff list_ex_Cons_iff nf f simp_thms)
qed

text \<open>
  C3. \<^verbatim>\<open>create\<close> returns no object when the file cannot be opened, and for a file that can
  be opened exactly when the vertex list or the index list is empty after the loop: when no
  line is a vertex line, or no line is a face line with three or four indices. For every other
  file \<^verbatim>\<open>parseFile\<close> goes on to \<^verbatim>\<open>computeNormals\<close>. \<^verbatim>\<open>create\<close> returns an object exactly when,
  moreover, every index is below the number of vertices; when one is not, \<^verbatim>\<open>computeNormals\<close>
  subscripts \<^verbatim>\<open>m_vertices\<close> outside the vector and the behaviour is undefined. The file of
  one vertex and the face \<^verbatim>\<open>f 0 1 2\<close> is such a file: the first index is stored as
  \<open>4294967295\<close>.
\<close>

theorem create_undefined_for_index_out_of_range:
  "create rdp rdf None mtlFile = Returns None
   \<and> parseFile rdp None Object_new = Returns (1, Object_new)
   \<and> (create rdp rdf (Some text) mtlFile = Returns None) =
       (m_vertices (parseLines rdp (getlines text) Object_new) = []
        \<or> m_indices (parseLines rdp (getlines text) Object_new) = [])
   \<and> (create rdp rdf (Some text) mtlFile = Returns None) =
       (\<exists>ob. parseFile rdp (Some text) Object_new = Returns (1, ob))
   \<and> (create rdp rdf (Some text) mtlFile = Returns None) =
       (\<not> (list_ex isVertexLine (getlines text) \<and> list_ex isValidFaceLine (getlines text)))
   \<and> (\<exists>ob. create rdp rdf (Some text) mtlFile = Returns (Some ob)) =
       (list_ex isVertexLine (getlines text) \<and> list_ex isValidFaceLine (getlines text)
        \<and> computeNormals_in_bounds (parseLines rdp (getlines text) Object_new))
   \<and> (create rdp rdf (Some text) mtlFile = Undefined) =
       (list_ex isVertexLine (getlines text) \<and> list_ex isValidFaceLine (getlines text)
        \<and> \<not> computeNormals_in_bounds (parseLines rdp (getlines text) Object_new))
   \<and> create decimalPosition readDecimal (Some ''v 0 0 0\<newline>f 0 1 2\<newline>'') None = Undefined
   \<and> length (m_vertices (parseLines decimalPosition (getlines ''v 0 0 0\<newline>f 0 1 2\<newline>'') Object_new)) = 1
   \<and> map unat (m_indices (parseLines decimalPosition (getlines ''v 0 0 0\<newline>f 0 1 2\<newline>'') Object_new))
       = [4294967295, 0, 1]
   \<and> create decimalPosition readDecimal (Some ''v 0 0 0\<newline>v 1 0 0\<newline>v 0 1 0\<newline>'') None = Returns None
   \<and> create decimalPosition readDecimal (Some ''f 1 2 3\<newline>'') None = Returns None
   \<and> create decimalPosition readDecimal (Some ''v 0 0 0\<newline>f 1 2\<newline>'') None = Returns None
   \<and> (\<exists>ob. create decimalPosition readDecimal
              (Some ''v 0 0 0\<newline>v 1 0 0\<newline>v 0 1 0\<newline>f 1 2 3\<newline>'') None = Returns (Some ob))"
proof -
  have n: "\<And>rdp rdf text mtlFile. (create rdp rdf (Some text) mtlFile = Returns None) =
       (\<not> (list_ex isVertexLine (getlines text) \<and> list_ex isValidFaceLine (getlines text)))"
    unfolding create_None_iff parsed_empty_iff by blast
  have s: "\<And>rdp rdf text mtlFile. (\<exists>ob. create rdp rdf (Some text) mtlFile = Returns (Some ob)) =
       (list_ex isVertexLine (getlines text) \<and> list_ex isValidFaceLine (getlines text)
        \<and> computeNormals_in_bounds (parseLines rdp (getlines text) Object_new))"
    unfolding create_Some_iff parsed_empty_iff by blast
  have u: "\<And>rdp rdf text mtlFile. (create rdp rdf (Some text) mtlFile = Undefined) =
       (list_ex isVertexLine (getlines text) \<and> list_ex isValidFaceLine (getlines text)
        \<and> \<not> computeNormals_in_bounds (parseLines rdp (getlines text) Object_new))"
    unfolding create_Undefined_iff parsed_empty_iff by blast
  have r: "(create rdp rdf (Some text) mtlFile = Returns None) =
       (\<exists>ob. parseFile rdp (Some text) Object_new = Returns (1, ob))"
    unfolding create_None_iff parseFile_rejects_iff by (rule refl)
  have 1: "create decimalPosition readDecimal (Some ''v 0 0 0\<newline>f 0 1 2\<newline>'') None = Undefined"
    unfolding u using parse_face_0_1_2(3,4,5) by blast
  have 2: "create decimalPosition readDecimal (Some ''v 0 0 0\<newline>v 1 0 0\<newline>v 0 1 0\<newline>'') None = Returns None"
    "create decimalPosition readDecimal (Some ''f 1 2 3\<newline>'') None = Returns None"
    "create decimalPosition readDecimal (Some ''v 0 0 0\<newline>f 1 2\<newline>'') None = Returns None"
    unfolding n using only_vertices_or_faces by blast+
  have 3: "\<exists>ob. create decimalPosition readDecimal
              (Some ''v 0 0 0\<newline>v 1 0 0\<newline>v 0 1 0\<newline>f 1 2 3\<newline>'') None = Returns (Some ob)"
    unfolding s using parse_triangle by blast
  show ?thesis
    using create_unreadable[of rdp rdf mtlFile] parseFile_None[of rdp Object_new]
      create_None_iff[of rdp rdf "text" mtlFile] r n[of rdp rdf "text" mtlFile]
      s[of rdp rdf "text" mtlFile] u[of rdp rdf "text" mtlFile] 1 parse_face_0_1_2(1,2) 2 3
    by blast
qed

section \<open>The centre\<close>

text \<open>The sums of \<^verbatim>\<open>calculateCenter\<close> in exact arithmetic.\<close>

lemma position_vertexAt: "position (vertexAt x y z) = (x, y, z)"
  by (simp add: vertexAt_def newVertex_def)

lemma foldl_sum_positions:
  "foldl (\<lambda>(sumX, sumY, sumZ) v.
            (case position v of (x, y, z) \<Rightarrow> (sumX + x, sumY + y, sumZ + z)))
         (a, b, c) vs =
     (a + (\<Sum>v\<leftarrow>vs. fst (position v)),
      b + (\<Sum>v\<leftarrow>vs. fst (snd (position v))),
      c + (\<Sum>v\<leftarrow>vs. snd (snd (position v))))"
  by (induction vs arbitrary: a b c) (simp_all add: case_prod_beta add.assoc)

lemma calculateCenter_sums:
  "calculateCenter obj =
     ((\<Sum>v\<leftarrow>m_vertices obj. fst (position v)) / real (length (m_vertices obj)),
      (\<Sum>v\<leftarrow>m_vertices obj. fst (snd (position v))) / real (length (m_vertices obj)),
      (\<Sum>v\<leftarrow>m_vertices obj. snd (snd (position v))) / real (length (m_vertices obj)))"
  by (simp add: calculateCenter_def calculateCenterWith_def sumPositions_def foldl_sum_positions
      Let_def)

lemma sum_list_permutation:
  fixes f :: "'a \<Rightarrow> real"
  assumes "mset xs = mset ys"
  shows "(\<Sum>x\<leftarrow>xs. f x) = (\<Sum>x\<leftarrow>ys. f x)"
proof -
  have "(\<Sum>x\<leftarrow>xs. f x) = sum_mset (image_mset f (mset xs))"
    by (simp flip: sum_mset_sum_list)
  also have "\<dots> = sum_mset (image_mset f (mset ys))"
    by (simp add: assms)
  also have "\<dots> = (\<Sum>x\<leftarrow>ys. f x)"
    by (simp flip: sum_mset_sum_list)
  finally show ?thesis .
qed

text \<open>
  C9, in exact arithmetic. For a mesh with at least one vertex, \<^verbatim>\<open>calculateCenter\<close> is the
  sum of the positions divided by their number, component by component, and a mesh with the
  same vertices in another order has the same centre.
\<close>

theorem center_is_mean_over_reals:
  assumes "m_vertices obj \<noteq> []" "mset (m_vertices obj') = mset (m_vertices obj)"
  shows "calculateCenter obj =
           ((\<Sum>v\<leftarrow>m_vertices obj. fst (position v)) / real (length (m_vertices obj)),
            (\<Sum>v\<leftarrow>m_vertices obj. fst (snd (position v))) / real (length (m_vertices obj)),
            (\<Sum>v\<leftarrow>m_vertices obj. snd (snd (position v))) / real (length (m_vertices obj)))
         \<and> calculateCenter obj' = calculateCenter obj"
proof -
  have "length (m_vertices obj') = length (m_vertices obj)"
    using assms(2) by (rule mset_eq_length)
  then have "calculateCenter obj' = calculateCenter obj"
    by (simp add: calculateCenter_sums sum_list_permutation[OF assms(2)])
  then show ?thesis
    by (simp add: calculateCenter_sums)
qed

text \<open>Three vertices with the mean \<open>(3, 1, 1)\<close>, in two orders.\<close>

theorem center_is_mean_over_reals_witness:
  "m_vertices (meshOf [vertexAt 1 2 3, vertexAt 3 0 0, vertexAt 5 1 0]) \<noteq> []
   \<and> mset (m_vertices (meshOf [vertexAt 5 1 0, vertexAt 1 2 3, vertexAt 3 0 0])) =
       mset (m_vertices (meshOf [vertexAt 1 2 3, vertexAt 3 0 0, vertexAt 5 1 0]))
   \<and> calculateCenter (meshOf [vertexAt 1 2 3, vertexAt 3 0 0, vertexAt 5 1 0]) = (3, 1, 1)
   \<and> calculateCenter (meshOf [vertexAt 5 1 0, vertexAt 1 2 3, vertexAt 3 0 0]) = (3, 1, 1)"
proof -
  have n: "m_vertices (meshOf [vertexAt 1 2 3, vertexAt 3 0 0, vertexAt 5 1 0]) \<noteq> []"
    by (simp add: meshOf_def)
  have p: "mset (m_vertices (meshOf [vertexAt 5 1 0, vertexAt 1 2 3, vertexAt 3 0 0])) =
       mset (m_vertices (meshOf [vertexAt 1 2 3, vertexAt 3 0 0, vertexAt 5 1 0]))"
    by (simp add: meshOf_def)
  note t = center_is_mean_over_reals[OF n p]
  have "calculateCenter (meshOf [vertexAt 1 2 3, vertexAt 3 0 0, vertexAt 5 1 0]) = (3, 1, 1)"
    using t by (simp add: meshOf_def position_vertexAt)
  with t n p show ?thesis
    by simp
qed

text \<open>
  C9, in binary32. The vertices \<open>(2^24, 0, 0)\<close>, \<open>(1, 0, 0)\<close>, \<open>(-2^24, 0, 0)\<close> have the
  mean \<open>(1/3, 0, 0)\<close>. In this order the running sum \<open>2^24 + 1\<close> is rounded to \<open>2^24\<close>
  and the centre is \<open>(0, 0, 0)\<close>; with the last two exchanged the sum is \<open>1\<close> and the centre
  is the float next to \<open>1/3\<close>.
\<close>

theorem center_f32_depends_on_order:
  "mset [vertexAt 16777216 0 0, vertexAt (- 16777216) 0 0, vertexAt 1 0 0] =
     mset [vertexAt 16777216 0 0, vertexAt 1 0 0, vertexAt (- 16777216) 0 0]
   \<and> calculateCenter_f32 (meshOf [vertexAt 16777216 0 0, vertexAt 1 0 0, vertexAt (- 16777216) 0 0])
       = (0, 0, 0)
   \<and> calculateCenter_f32 (meshOf [vertexAt 16777216 0 0, vertexAt (- 16777216) 0 0, vertexAt 1 0 0])
       = (11184811 / 33554432, 0, 0)
   \<and> calculateCenter (meshOf [vertexAt 16777216 0 0, vertexAt 1 0 0, vertexAt (- 16777216) 0 0])
       = (1 / 3, 0, 0)"
  by (simp add: calculateCenter_f32_def calculateCenter_def calculateCenterWith_def sumPositions_def
      Let_def meshOf_def position_vertexAt fl32_0 fl32_1 fl32_3 fl32_2p24 fl32_2p24_1 fl32_third)

section \<open>Material creation\<close>

lemma Material_create_None:
  "Material_create rdf None = setDefaultParams Material_new"
  by (simp add: Material_create_def Material_parseFile_def)

lemma Material_create_Some:
  "Material_create rdf (Some text) =
     foldl (\<lambda>q line. Material_parseLine rdf line q) Material_new (getlines text)"
  by (simp add: Material_create_def Material_parseFile_def)

text \<open>
  C8, as the code has it. When the material file cannot be opened, \<^verbatim>\<open>Material::create\<close>
  returns the default parameters. When it can be opened, the material is what the lines of
  the file make of the zero-initialised parameters, and the defaults are not used.
\<close>

theorem material_defaults_when_unreadable:
  "Material_create rdf None =
     \<lparr>name = ''defaultParamsSettings'', Ns = 10, Ka = (0, 0, 0), Kd = (8 / 10, 8 / 10, 8 / 10),
      Ks = (0, 0, 0), Ke = (0, 0, 0), Ni = 1, opacity = 1, illum = 2\<rparr>
   \<and> Material_create rdf (Some text) =
       foldl (\<lambda>q line. Material_parseLine rdf line q) Material_new (getlines text)"
  by (simp add: Material_create_None Material_create_Some setDefaultParams_def Material_new_def)

text \<open>
  C8, as stated, fails for a file that can be opened and holds no material: no line sets a
  parameter, and the material is the zero-initialised one (diffuse colour \<open>(0, 0, 0)\<close>,
  opacity \<open>0\<close>), not the defaults. It fails as well for a file whose diffuse colour is not a
  number: the failed extraction stores \<open>0\<close>, and the defaults are not used.
\<close>

theorem material_unparseable_keeps_zeros:
  "Material_create readDecimal (Some ''this is not a material file\<newline>'') = Material_new
   \<and> Kd (Material_create readDecimal (Some ''this is not a material file\<newline>'')) = (0, 0, 0)
   \<and> opacity (Material_create readDecimal (Some ''this is not a material file\<newline>'')) = 0
   \<and> Material_create readDecimal (Some ''this is not a material file\<newline>'')
       \<noteq> Material_create readDecimal None
   \<and> Kd (Material_create readDecimal (Some ''Kd x\<newline>'')) = (0, 0, 0)
   \<and> Kd (Material_create readDecimal None) = (8 / 10, 8 / 10, 8 / 10)"
proof -
  have g: "getlines ''this is not a material file\<newline>'' = [''this is not a material file'']"
    "getlines ''Kd x\<newline>'' = [''Kd x'']"
    by code_simp+
  have w: "readWord ''this is not a material file'' = (''this'', '' is not a material file'')"
    "readWord ''Kd x'' = (''Kd'', '' x'')"
    by code_simp+
  have x: "readDecimal '' x'' = Failed (Some 0)"
    by (simp add: readDecimal_def isspace_def isdigit_def)
  have m: "Material_create readDecimal (Some ''this is not a material file\<newline>'') = Material_new"
    by (simp add: Material_create_Some g Material_parseLine_def w)
  have k: "Kd (Material_create readDecimal (Some ''Kd x\<newline>'')) = (0, 0, 0)"
    by (simp add: Material_create_Some g Material_parseLine_def w readFloat3_def x storeFloat_def
        Material_new_def)
  have d: "Kd (Material_create readDecimal None) = (8 / 10, 8 / 10, 8 / 10)"
    by (simp add: Material_create_None setDefaultParams_def)
  then have "Kd (Material_create readDecimal None) \<noteq> Kd Material_new"
    by (simp add: Material_new_def)
  then have "Material_create readDecimal None \<noteq> Material_new"
    by auto
  then show ?thesis
    unfolding m using k d by (simp add: Material_new_def)
qed

end
